theory Spec2Isabelle
  imports Main
begin

section \<open>The avient.com safety-data-sheet scraper\<close>

text \<open>
  A shallow embedding of the Go program in \<^verbatim>\<open>src/main.go\<close> and of its sibling copies
  (\<^verbatim>\<open>src/unnamed/part_000\<close>, \<^verbatim>\<open>src/unnamed/part_001\<close>). A Go \<^verbatim>\<open>string\<close> is a
  sequence of bytes and is modelled as \<^typ>\<open>string\<close> (a list of 8-bit \<^typ>\<open>char\<close>).
  Functions of the Go standard library that the program calls on strings are modelled after
  the library's behaviour (\<^verbatim>\<open>strings\<close>, \<^verbatim>\<open>path\<close>, \<^verbatim>\<open>net/url\<close>.QueryUnescape,
  \<^verbatim>\<open>unicode/utf8\<close>, the one regular expression). The URL parser, the HTML parser, the
  HTTP client and the outcomes of file-system calls are parameters of the model.
\<close>

subsection \<open>Bytes and strings of the Go library\<close>

definition byte :: "char \<Rightarrow> nat" where
  "byte c = of_char c"

text \<open>
  \<^verbatim>\<open>strings.ToLower\<close>. On a string of ASCII bytes Go adds \<^verbatim>\<open>'a' - 'A'\<close> to every byte
  in \<^verbatim>\<open>'A'..'Z'\<close>; that is what this function does to each byte. On a string with a byte
  \<open>\<ge> 0x80\<close> Go maps every rune through \<^verbatim>\<open>unicode.ToLower\<close> instead, which this model
  does not follow: it leaves such bytes alone. The program reads the result of ToLower in two
  ways only: through the test for the suffix \<^verbatim>\<open>.pdf\<close>, which is decided by the last four
  bytes (the only runes whose lower case is one of \<^verbatim>\<open>. p d f\<close> are the ASCII characters
  \<^verbatim>\<open>. p P d D f F\<close>), and on file names that the regular expression has already
  reduced to ASCII (lemma \<open>re_ReplaceAllString_safe\<close> below).
\<close>

definition upper_letters :: string where
  "upper_letters = ''ABCDEFGHIJKLMNOPQRSTUVWXYZ''"

definition lower_letters :: string where
  "lower_letters = ''abcdefghijklmnopqrstuvwxyz''"

definition digits :: string where
  "digits = ''0123456789''"

definition lower_byte :: "char \<Rightarrow> char" where
  "lower_byte c = (case map_of (zip upper_letters lower_letters) c of None \<Rightarrow> c | Some d \<Rightarrow> d)"

definition ToLower :: "string \<Rightarrow> string" where
  "ToLower s = map lower_byte s"

text \<open>\<^verbatim>\<open>strings.HasSuffix(s, suffix)\<close>:
  \<^verbatim>\<open>len(s) >= len(suffix) && s[len(s)-len(suffix):] == suffix\<close>.\<close>

definition HasSuffix :: "string \<Rightarrow> string \<Rightarrow> bool" where
  "HasSuffix s suffix \<longleftrightarrow>
     length suffix \<le> length s \<and> drop (length s - length suffix) s = suffix"

text \<open>\<^verbatim>\<open>strings.Trim(s, "_")\<close>: the cutset is one ASCII byte, so Go trims that byte on
  the left, then on the right.\<close>

definition Trim_underscore :: "string \<Rightarrow> string" where
  "Trim_underscore s =
     rev (dropWhile (\<lambda>c. c = CHR ''_'') (rev (dropWhile (\<lambda>c. c = CHR ''_'') s)))"

text \<open>
  \<^verbatim>\<open>path.Base\<close>: the empty path gives \<^verbatim>\<open>.\<close>; trailing slashes are stripped; the
  part after the last slash is kept (the whole path when it has none); a path of slashes only
  gives \<^verbatim>\<open>/\<close>.
\<close>

definition path_Base :: "string \<Rightarrow> string" where
  "path_Base path =
     (if path = [] then ''.''
      else
        let stripped = rev (dropWhile (\<lambda>c. c = CHR ''/'') (rev path));
            last_elem = rev (takeWhile (\<lambda>c. c \<noteq> CHR ''/'') (rev stripped))
        in if last_elem = [] then ''/'' else last_elem)"

text \<open>
  \<^verbatim>\<open>url.QueryUnescape\<close> (\<^verbatim>\<open>unescape(s, encodeQueryComponent)\<close>). A first pass checks
  that every \<^verbatim>\<open>%\<close> is followed by two hexadecimal digits and fails with an EscapeError
  (carrying at most three bytes from the offending \<^verbatim>\<open>%\<close>) otherwise; Go then returns the
  EMPTY string together with the error. When the string has neither \<^verbatim>\<open>%\<close> nor \<^verbatim>\<open>+\<close>
  it is returned as it is; otherwise a second pass writes one byte for each \<^verbatim>\<open>%XX\<close>, a
  space for each \<^verbatim>\<open>+\<close>, and every other byte unchanged.
\<close>

datatype url_error = EscapeError string | ParseError string

definition ishex :: "char \<Rightarrow> bool" where
  "ishex c \<longleftrightarrow> c \<in> set ''0123456789abcdefABCDEF''"

definition unhex :: "char \<Rightarrow> nat" where
  "unhex c =
     (if byte (CHR ''0'') \<le> byte c \<and> byte c \<le> byte (CHR ''9'') then byte c - byte (CHR ''0'')
      else if byte (CHR ''a'') \<le> byte c \<and> byte c \<le> byte (CHR ''f'') then byte c - byte (CHR ''a'') + 10
      else if byte (CHR ''A'') \<le> byte c \<and> byte c \<le> byte (CHR ''F'') then byte c - byte (CHR ''A'') + 10
      else 0)"

fun unescape_check :: "string \<Rightarrow> string option" where
  "unescape_check [] = None"
| "unescape_check (c # s) =
     (if c = CHR ''%'' then
        (case s of
           h1 # h2 # rest \<Rightarrow>
             if ishex h1 \<and> ishex h2 then unescape_check rest else Some (take 3 (c # s))
         | _ \<Rightarrow> Some (take 3 (c # s)))
      else unescape_check s)"

fun unescape_write :: "string \<Rightarrow> string" where
  "unescape_write [] = []"
| "unescape_write (c # s) =
     (if c = CHR ''%'' then
        (case s of
           h1 # h2 # rest \<Rightarrow> char_of (unhex h1 * 16 + unhex h2) # unescape_write rest
         | _ \<Rightarrow> [])
      else if c = CHR ''+'' then CHR '' '' # unescape_write s
      else c # unescape_write s)"

definition QueryUnescape :: "string \<Rightarrow> url_error + string" where
  "QueryUnescape s =
     (case unescape_check s of
        Some bad \<Rightarrow> Inl (EscapeError bad)
      | None \<Rightarrow>
          if CHR ''%'' \<notin> set s \<and> CHR ''+'' \<notin> set s then Inr s else Inr (unescape_write s))"

text \<open>
  \<^verbatim>\<open>utf8.DecodeRuneInString\<close>, as far as the regular expression needs it: the number of
  bytes the first rune of a string takes. \<open>first_byte\<close> is the library's table
  \<^verbatim>\<open>first\<close> joined with \<^verbatim>\<open>acceptRanges\<close>: for a lead byte of a multi-byte rune, the
  size of the rune and the range its second byte must lie in. An ASCII byte is a rune of
  width 1; a byte that starts no well-formed rune is read as \<^verbatim>\<open>RuneError\<close>, width 1.
\<close>

definition first_byte :: "nat \<Rightarrow> (nat \<times> nat \<times> nat) option" where
  "first_byte b =
     (if 0xC2 \<le> b \<and> b \<le> 0xDF then Some (2, 0x80, 0xBF)
      else if b = 0xE0 then Some (3, 0xA0, 0xBF)
      else if 0xE1 \<le> b \<and> b \<le> 0xEC then Some (3, 0x80, 0xBF)
      else if b = 0xED then Some (3, 0x80, 0x9F)
      else if 0xEE \<le> b \<and> b \<le> 0xEF then Some (3, 0x80, 0xBF)
      else if b = 0xF0 then Some (4, 0x90, 0xBF)
      else if 0xF1 \<le> b \<and> b \<le> 0xF3 then Some (4, 0x80, 0xBF)
      else if b = 0xF4 then Some (4, 0x80, 0x8F)
      else None)"

definition continuation :: "char \<Rightarrow> bool" where
  "continuation c \<longleftrightarrow> 0x80 \<le> byte c \<and> byte c \<le> 0xBF"

definition rune_width :: "string \<Rightarrow> nat" where
  "rune_width s =
     (case s of
        [] \<Rightarrow> 0
      | s0 # rest \<Rightarrow>
          (case first_byte (byte s0) of
             None \<Rightarrow> 1
           | Some (sz, lo, hi) \<Rightarrow>
               if length s < sz then 1
               else if byte (rest ! 0) < lo \<or> hi < byte (rest ! 0) then 1
               else if sz \<le> 2 then 2
               else if \<not> continuation (rest ! 1) then 1
               else if sz \<le> 3 then 3
               else if \<not> continuation (rest ! 2) then 1
               else 4))"

text \<open>
  The regular expression \<^verbatim>\<open>[^\w\-.]\<close>: one rune that is not an ASCII letter, digit,
  underscore, hyphen or full stop (\<^verbatim>\<open>\w\<close> is \<^verbatim>\<open>[0-9A-Za-z_]\<close> in Go). Every rune of
  more than one byte and every ill-formed byte (\<^verbatim>\<open>RuneError\<close>) matches it.
  \<open>re_ReplaceAllString\<close> is \<^verbatim>\<open>re.ReplaceAllString(s, "_")\<close> for this expression: the
  string is read rune by rune and each matching rune becomes one underscore.
\<close>

definition safe_byte :: "char \<Rightarrow> bool" where
  "safe_byte c \<longleftrightarrow> c \<in> set (digits @ upper_letters @ lower_letters @ ''_-.'')"

lemma rune_width_pos: "s \<noteq> [] \<Longrightarrow> 0 < rune_width s"
  by (cases s) (auto simp: rune_width_def split: option.splits)

function re_ReplaceAllString :: "string \<Rightarrow> string" where
  "re_ReplaceAllString s =
     (if s = [] then []
      else (if safe_byte (hd s) then hd s else CHR ''_'')
             # re_ReplaceAllString (drop (rune_width s) s))"
  by pat_completeness auto
termination
  by (relation "measure length") (auto simp: rune_width_pos)

declare re_ReplaceAllString.simps [simp del]

subsection \<open>Log output\<close>

text \<open>
  \<^verbatim>\<open>log.Printf(format, args...)\<close> and \<^verbatim>\<open>log.Println(args...)\<close> append one entry to
  the log: the format string (empty for Println) and the arguments. An \<^verbatim>\<open>error\<close> value
  among the arguments is written as the text the environment gave for it.
\<close>

datatype log_msg = Log string "string list"

subsection \<open>removeDuplicatesFromSlice (src/main.go, lines 113-123)\<close>

text \<open>
  \<^verbatim>\<open>check\<close> is a Go \<^verbatim>\<open>map[string]bool\<close>: reading a key that is absent gives
  \<^verbatim>\<open>false\<close>. The loop over the slice carries the map and the result slice, to which
  \<^verbatim>\<open>append\<close> adds at the end.
\<close>

definition map_index :: "(string \<rightharpoonup> bool) \<Rightarrow> string \<Rightarrow> bool" where
  "map_index check k = (case check k of None \<Rightarrow> False | Some b \<Rightarrow> b)"

fun removeDuplicates_range :: "(string \<rightharpoonup> bool) \<Rightarrow> string list \<Rightarrow> string list \<Rightarrow> string list" where
  "removeDuplicates_range check newReturnSlice [] = newReturnSlice"
| "removeDuplicates_range check newReturnSlice (content # rest) =
     (if \<not> map_index check content
      then removeDuplicates_range (check(content \<mapsto> True)) (newReturnSlice @ [content]) rest
      else removeDuplicates_range check newReturnSlice rest)"

definition removeDuplicatesFromSlice :: "string list \<Rightarrow> string list" where
  "removeDuplicatesFromSlice slice = removeDuplicates_range Map.empty [] slice"

text \<open>
  The specification's words, for comparison: the elements of the input at the positions
  where the element has not occurred before, in the order of these positions.
\<close>

definition first_occurrences :: "string list \<Rightarrow> string list" where
  "first_occurrences xs =
     map (\<lambda>i. xs ! i) (filter (\<lambda>i. xs ! i \<notin> set (take i xs)) [0..<length xs])"

text \<open>A recursive description of the same list, used in the proofs: the elements not yet
  in \<open>S\<close>, each taken once.\<close>

fun fresh_from :: "string set \<Rightarrow> string list \<Rightarrow> string list" where
  "fresh_from S [] = []"
| "fresh_from S (x # xs) =
     (if x \<in> S then fresh_from S xs else x # fresh_from (insert x S) xs)"

subsection \<open>sanitizeFileNameFromURL (src/main.go, lines 132-161)\<close>

text \<open>
  \<^verbatim>\<open>url.Parse\<close> is a parameter: it yields an error or a URL, of which the program reads
  the field \<^verbatim>\<open>Path\<close> only (the path of the URL, already percent-decoded once by the
  parser). The function returns the file name together with the log entries it wrote.

  When \<^verbatim>\<open>url.QueryUnescape\<close> fails, Go assigns its results all the same: the file name
  becomes the empty string, the error is logged, and the function goes on.
\<close>

record URL =
  Path :: string

type_synonym url_parser = "string \<Rightarrow> url_error + URL"

definition error_text :: "url_error \<Rightarrow> string" where
  "error_text e =
     (case e of
        EscapeError bad \<Rightarrow> ''invalid URL escape '' @ [CHR 0x22] @ bad @ [CHR 0x22]
      | ParseError m \<Rightarrow> m)"

definition sanitizeFileNameFromURL :: "url_parser \<Rightarrow> string \<Rightarrow> string \<times> log_msg list" where
  "sanitizeFileNameFromURL url_Parse rawURL =
     (case url_Parse rawURL of
        Inl err \<Rightarrow> (''invalid_filename'', [Log ''Error parsing URL: %v'' [error_text err]])
      | Inr parsedURL \<Rightarrow>
          let fileName0 = path_Base (Path parsedURL);
              (fileName, log1) =
                (case QueryUnescape fileName0 of
                   Inl err \<Rightarrow> ([], [Log ''Error decoding file name: %v'' [error_text err]])
                 | Inr decoded \<Rightarrow> (decoded, []));
              safeFileName0 = re_ReplaceAllString fileName;
              safeFileName = Trim_underscore safeFileName0
          in if safeFileName = [] then (''downloaded_file'', log1)
             else (ToLower safeFileName, log1))"

text \<open>
  The specification's words, for comparison: the base name with every character outside
  \<^verbatim>\<open>[A-Za-z0-9_.-]\<close> replaced by an underscore, underscores trimmed at both ends, in
  lower case; the fixed fallback name when that is empty. The base name is not decoded.
\<close>

definition claimed_file_name :: "string \<Rightarrow> string" where
  "claimed_file_name base =
     (let name = ToLower (Trim_underscore (re_ReplaceAllString base))
      in if name = [] then ''downloaded_file'' else name)"

subsection \<open>parseHTML (src/main.go, lines 164-195)\<close>

text \<open>
  The HTML parser (\<^verbatim>\<open>goquery.NewDocumentFromReader\<close>) is a parameter: it yields an
  error or a document tree. \<open>Find_a_href\<close> is \<^verbatim>\<open>doc.Find("a[href]")\<close>: the elements
  named \<^verbatim>\<open>a\<close> that have an attribute \<^verbatim>\<open>href\<close>, in document order (an element
  before its descendants). \<open>Attr\<close> is \<^verbatim>\<open>selection.Attr\<close>: the value of the first
  attribute with the given key, and whether there is one.
\<close>

datatype node = Element string "(string \<times> string) list" "node list" | Text string

fun Attr :: "node \<Rightarrow> string \<Rightarrow> string option" where
  "Attr (Element tag attrs children) key = map_of attrs key"
| "Attr (Text t) key = None"

fun descendants :: "node \<Rightarrow> node list" where
  "descendants (Element tag attrs children) =
     concat (map (\<lambda>child. child # descendants child) children)"
| "descendants (Text t) = []"

fun matches_a_href :: "node \<Rightarrow> bool" where
  "matches_a_href (Element tag attrs children) = (tag = ''a'' \<and> map_of attrs ''href'' \<noteq> None)"
| "matches_a_href (Text t) = False"

definition Find_a_href :: "node \<Rightarrow> node list" where
  "Find_a_href doc = filter matches_a_href (descendants doc)"

type_synonym html_parser = "string \<Rightarrow> string + node"

text \<open>The body of the closure passed to \<^verbatim>\<open>Each\<close>: it appends to \<^verbatim>\<open>pdfLinks\<close> and
  logs.\<close>

definition parseHTML_each :: "node \<Rightarrow> string list \<times> log_msg list \<Rightarrow> string list \<times> log_msg list" where
  "parseHTML_each selection acc =
     (case Attr selection ''href'' of
        None \<Rightarrow> acc
      | Some href \<Rightarrow>
          (case QueryUnescape href of
             Inl err \<Rightarrow> (fst acc, snd acc @ [Log ''Error decoding href: %v'' [error_text err]])
           | Inr decodedHref \<Rightarrow>
               if HasSuffix (ToLower decodedHref) ''.pdf''
               then (fst acc @ [href], snd acc)
               else acc))"

fun Each :: "node list \<Rightarrow> (node \<Rightarrow> 'a \<Rightarrow> 'a) \<Rightarrow> 'a \<Rightarrow> 'a" where
  "Each [] f acc = acc"
| "Each (selection # rest) f acc = Each rest f (f selection acc)"

definition parseHTML :: "html_parser \<Rightarrow> string \<Rightarrow> string list \<times> log_msg list" where
  "parseHTML NewDocument htmlContent =
     (case NewDocument htmlContent of
        Inl err \<Rightarrow> ([], [Log ''Error parsing HTML: %v'' [err]])
      | Inr doc \<Rightarrow> Each (Find_a_href doc) parseHTML_each ([], []))"

text \<open>The href values of the anchors of a document, in document order.\<close>

definition anchor_targets :: "node \<Rightarrow> string list" where
  "anchor_targets doc = map (\<lambda>n. the (Attr n ''href'')) (Find_a_href doc)"

text \<open>The test the code applies to an anchor target.\<close>

definition decodes_to_pdf :: "string \<Rightarrow> bool" where
  "decodes_to_pdf href =
     (case QueryUnescape href of Inl err \<Rightarrow> False | Inr d \<Rightarrow> HasSuffix (ToLower d) ''.pdf'')"

subsection \<open>The world: file system, network requests, log\<close>

text \<open>
  The state the program acts on: the file system (a path holds a regular file with its
  content, or a directory), the URLs for which an HTTP GET was issued through
  \<^verbatim>\<open>client.Get\<close> or \<^verbatim>\<open>http.Get\<close> (in order; one entry for each call, whatever
  redirects the client follows inside it), the log, and the counter of the
  \<^verbatim>\<open>sync.WaitGroup\<close> the download goroutines share.
\<close>

datatype entry = File string | Dir

record world =
  fs :: "string \<rightharpoonup> entry"
  requests :: "string list"
  logs :: "log_msg list"
  wg :: int

text \<open>
  An HTTP response: status code and status line, the \<^verbatim>\<open>Content-Type\<close> header, the bytes
  the body delivers, and whether reading the body ends in an error after these bytes
  (instead of EOF), or closing it fails.
\<close>

record response =
  StatusCode :: nat
  Status :: string
  ContentType :: string
  Body :: string
  Body_err :: "string option"
  Body_Close_err :: "string option"

text \<open>
  What the environment decides for one call of \<^verbatim>\<open>downloadPDF\<close>: the URL parser,
  \<^verbatim>\<open>filepath.Join\<close>, the answer of the HTTP client (an error or a response), and the
  faults of the file system: whether creating a missing directory or creating the file fails,
  and whether writing the file fails after a number of bytes.
\<close>

record env =
  url_Parse :: url_parser
  Join :: "string \<Rightarrow> string \<Rightarrow> string"
  client_Get :: "string \<Rightarrow> string + response"
  MkdirAll_err :: "string option"
  Create_err :: "string option"
  Write_err :: "(nat \<times> string) option"

definition log_Printf :: "string \<Rightarrow> string list \<Rightarrow> world \<Rightarrow> world" where
  "log_Printf format args w = w\<lparr>logs := logs w @ [Log format args]\<rparr>"

definition log_Println :: "string list \<Rightarrow> world \<Rightarrow> world" where
  "log_Println args w = w\<lparr>logs := logs w @ [Log [] args]\<rparr>"

definition wg_Done :: "world \<Rightarrow> world" where
  "wg_Done w = w\<lparr>wg := wg w - 1\<rparr>"

text \<open>\<^verbatim>\<open>fileExists\<close> (src/main.go, lines 218-224): \<^verbatim>\<open>os.Stat\<close> succeeds and the entry
  is not a directory.\<close>

definition fileExists :: "world \<Rightarrow> string \<Rightarrow> bool" where
  "fileExists w filename =
     (case fs w filename of None \<Rightarrow> False | Some info \<Rightarrow> info \<noteq> Dir)"

text \<open>\<^verbatim>\<open>os.MkdirAll\<close>: nothing to do for a directory that exists; an error when the path
  is a regular file; otherwise the directory is created, unless the environment refuses.\<close>

definition os_MkdirAll :: "env \<Rightarrow> string \<Rightarrow> world \<Rightarrow> string + world" where
  "os_MkdirAll e path w =
     (case fs w path of
        Some Dir \<Rightarrow> Inr w
      | Some (File c) \<Rightarrow> Inl ''not a directory''
      | None \<Rightarrow>
          (case MkdirAll_err e of
             Some err \<Rightarrow> Inl err
           | None \<Rightarrow> Inr (w\<lparr>fs := (fs w)(path \<mapsto> Dir)\<rparr>)))"

text \<open>\<^verbatim>\<open>os.Create\<close>: creates the file, or truncates the one that is there; an error when
  the path is a directory or the environment refuses.\<close>

definition os_Create :: "env \<Rightarrow> string \<Rightarrow> world \<Rightarrow> string + world" where
  "os_Create e path w =
     (case Create_err e of
        Some err \<Rightarrow> Inl err
      | None \<Rightarrow>
          (case fs w path of
             Some Dir \<Rightarrow> Inl ''is a directory''
           | _ \<Rightarrow> Inr (w\<lparr>fs := (fs w)(path \<mapsto> File [])\<rparr>)))"

text \<open>Writing bytes to the file just created: all of them, or the bytes the file
  accepts before the write fails.\<close>

definition file_Write :: "env \<Rightarrow> string \<Rightarrow> string \<Rightarrow> world \<Rightarrow> string option \<times> world" where
  "file_Write e path bytes w =
     (case Write_err e of
        Some (n, err) \<Rightarrow>
          if n < length bytes then (Some err, w\<lparr>fs := (fs w)(path \<mapsto> File (take n bytes))\<rparr>)
          else (None, w\<lparr>fs := (fs w)(path \<mapsto> File bytes)\<rparr>)
      | None \<Rightarrow> (None, w\<lparr>fs := (fs w)(path \<mapsto> File bytes)\<rparr>))"

text \<open>\<^verbatim>\<open>io.Copy(out, resp.Body)\<close>: the body is streamed into the file; the copy fails
  when a write fails or when reading the body ends in an error. The bytes copied so far stay
  in the file.\<close>

definition io_Copy_to_file :: "env \<Rightarrow> string \<Rightarrow> response \<Rightarrow> world \<Rightarrow> string option \<times> world" where
  "io_Copy_to_file e path resp w =
     (case file_Write e path (Body resp) w of
        (Some err, w') \<Rightarrow> (Some err, w')
      | (None, w') \<Rightarrow> (Body_err resp, w'))"

definition arrow :: string where
  "arrow = [CHR 0xE2, CHR 0x86, CHR 0x92]"

subsection \<open>downloadPDF (src/main.go, lines 60-110)\<close>

text \<open>Lines 68-74: the file name for a URL.\<close>

definition downloadPDF_filename :: "url_parser \<Rightarrow> string \<Rightarrow> string \<times> log_msg list" where
  "downloadPDF_filename parse finalURL =
     (let (filename0, lg) = sanitizeFileNameFromURL parse finalURL;
          filename1 = (if filename0 = [] then path_Base finalURL else filename0);
          filename = (if \<not> HasSuffix (ToLower filename1) ''.pdf''
                      then filename1 @ ''.pdf'' else filename1)
      in (filename, lg))"

definition downloadPDF_filePath :: "env \<Rightarrow> string \<Rightarrow> string \<Rightarrow> string" where
  "downloadPDF_filePath e finalURL outputDir =
     Join e outputDir (fst (downloadPDF_filename (url_Parse e) finalURL))"

text \<open>The body of the function; \<^verbatim>\<open>defer wg.Done()\<close> runs when it returns.\<close>

definition downloadPDF_body :: "env \<Rightarrow> string \<Rightarrow> string \<Rightarrow> world \<Rightarrow> bool \<times> world" where
  "downloadPDF_body e finalURL outputDir w0 =
     (case os_MkdirAll e outputDir w0 of
        Inl err \<Rightarrow>
          (False, log_Printf ''Failed to create directory %s: %v'' [outputDir, err] w0)
      | Inr w1 \<Rightarrow>
          let (filename, lg) = downloadPDF_filename (url_Parse e) finalURL;
              w2 = w1\<lparr>logs := logs w1 @ lg\<rparr>;
              filePath = Join e outputDir filename
          in
            if fileExists w2 filePath
            then (False, log_Printf ''File already exists, skipping: %s'' [filePath] w2)
            else
              let w3 = w2\<lparr>requests := requests w2 @ [finalURL]\<rparr> in
              (case client_Get e finalURL of
                 Inl err \<Rightarrow>
                   (False, log_Printf ''Failed to download %s: %v'' [finalURL, err] w3)
               | Inr resp \<Rightarrow>
                   if StatusCode resp \<noteq> 200
                   then (False,
                         log_Printf ''Download failed for %s: %s'' [finalURL, Status resp] w3)
                   else
                     (case os_Create e filePath w3 of
                        Inl err \<Rightarrow>
                          (False, log_Printf ''Failed to create file %s %s %v''
                                    [finalURL, filePath, err] w3)
                      | Inr w4 \<Rightarrow>
                          (case io_Copy_to_file e filePath resp w4 of
                             (Some err, w5) \<Rightarrow>
                               (False, log_Printf ''Failed to save PDF to %s %s %v''
                                         [finalURL, filePath, err] w5)
                           | (None, w5) \<Rightarrow>
                               (True, log_Printf (''Downloaded %s '' @ arrow @ '' %s'')
                                        [finalURL, filePath] w5)))))"

definition downloadPDF :: "env \<Rightarrow> string \<Rightarrow> string \<Rightarrow> world \<Rightarrow> bool \<times> world" where
  "downloadPDF e finalURL outputDir w =
     (let (ok, w') = downloadPDF_body e finalURL outputDir w in (ok, wg_Done w'))"

subsection \<open>downloadPDF with the content-type check (src/unnamed/part_000, lines 144-189)\<close>

definition downloadPDF_000_body :: "env \<Rightarrow> string \<Rightarrow> string \<Rightarrow> world \<Rightarrow> bool \<times> world" where
  "downloadPDF_000_body e finalURL outputDir w0 =
     (let (filename, lg) = sanitizeFileNameFromURL (url_Parse e) finalURL;
          w2 = w0\<lparr>logs := logs w0 @ lg\<rparr>;
          filePath = Join e outputDir filename
      in
        if fileExists w2 filePath
        then (False, log_Printf ''File already exists, skipping: %s'' [filePath] w2)
        else
          let w3 = w2\<lparr>requests := requests w2 @ [finalURL]\<rparr> in
          (case client_Get e finalURL of
             Inl err \<Rightarrow>
               (False, log_Printf ''Failed to download %s: %v'' [finalURL, err] w3)
           | Inr resp \<Rightarrow>
               if StatusCode resp \<noteq> 200
               then (False,
                     log_Printf ''Download failed for %s: %s'' [finalURL, Status resp] w3)
               else if ContentType resp \<noteq> ''application/pdf''
               then (False,
                     log_Printf ''Invalid content type for %s: %s (expected application/pdf)''
                       [finalURL, ContentType resp] w3)
               else
                 (case os_Create e filePath w3 of
                    Inl err \<Rightarrow>
                      (False, log_Printf ''Failed to create file for %s: %v'' [finalURL, err] w3)
                  | Inr w4 \<Rightarrow>
                      (case io_Copy_to_file e filePath resp w4 of
                         (Some err, w5) \<Rightarrow>
                           (False, log_Printf ''Failed to save PDF from %s: %v''
                                     [finalURL, err] w5)
                       | (None, w5) \<Rightarrow>
                           (True, log_Printf (''Downloaded %s '' @ arrow @ '' %s'')
                                    [finalURL, filePath] w5)))))"

definition downloadPDF_000 :: "env \<Rightarrow> string \<Rightarrow> string \<Rightarrow> world \<Rightarrow> bool \<times> world" where
  "downloadPDF_000 e finalURL outputDir w =
     (let (ok, w') = downloadPDF_000_body e finalURL outputDir w in (ok, wg_Done w'))"

definition downloadPDF_000_filePath :: "env \<Rightarrow> string \<Rightarrow> string \<Rightarrow> string" where
  "downloadPDF_000_filePath e finalURL outputDir =
     Join e outputDir (fst (sanitizeFileNameFromURL (url_Parse e) finalURL))"

subsection \<open>The buffered downloadPDF (src/unnamed/part_001, lines 791-843 and 412-466)\<close>

text \<open>\<^verbatim>\<open>strings.Contains\<close>, and the decimal text \<^verbatim>\<open>%d\<close> prints for a number that is
  not negative.\<close>

fun Contains :: "string \<Rightarrow> string \<Rightarrow> bool" where
  "Contains [] substr = (substr = [])"
| "Contains (c # s) substr = (take (length substr) (c # s) = substr \<or> Contains s substr)"

fun decimal :: "nat \<Rightarrow> string" where
  "decimal n = (if n < 10 then [digits ! n] else decimal (n div 10) @ [digits ! (n mod 10)])"

declare decimal.simps [simp del]

text \<open>
  This variant takes the path of the file from its caller and does not look whether the
  file exists. \<^verbatim>\<open>io.Copy(&buf, resp.Body)\<close> reads the whole body into memory:
  \<open>written\<close> is the number of bytes read, and the copy fails when reading ends in an
  error. The file is created after that.
\<close>

definition downloadPDF_buffered :: "env \<Rightarrow> string \<Rightarrow> string \<Rightarrow> world \<Rightarrow> bool \<times> world" where
  "downloadPDF_buffered e finalURL filePath w0 =
     (let w1 = w0\<lparr>requests := requests w0 @ [finalURL]\<rparr> in
      case client_Get e finalURL of
        Inl err \<Rightarrow> (False, log_Printf ''Failed to download %s: %v'' [finalURL, err] w1)
      | Inr resp \<Rightarrow>
          if StatusCode resp \<noteq> 200
          then (False, log_Printf ''Download failed for %s: %s'' [finalURL, Status resp] w1)
          else if \<not> Contains (ContentType resp) ''application/pdf''
          then (False,
                log_Printf ''Invalid content type for %s: %s (expected application/pdf)''
                  [finalURL, ContentType resp] w1)
          else
            let buf = Body resp; written = length buf in
            (case Body_err resp of
               Some err \<Rightarrow>
                 (False, log_Printf ''Failed to read PDF data from %s: %v'' [finalURL, err] w1)
             | None \<Rightarrow>
                 if written = 0
                 then (False,
                       log_Printf ''Downloaded 0 bytes for %s; not creating file'' [finalURL] w1)
                 else
                   (case os_Create e filePath w1 of
                      Inl err \<Rightarrow>
                        (False,
                         log_Printf ''Failed to create file for %s: %v'' [finalURL, err] w1)
                    | Inr w2 \<Rightarrow>
                        (case file_Write e filePath buf w2 of
                           (Some err, w3) \<Rightarrow>
                             (False, log_Printf ''Failed to write PDF to file for %s: %v''
                                       [finalURL, err] w3)
                         | (None, w3) \<Rightarrow>
                             (True,
                              log_Printf
                                (''Successfully downloaded %d bytes: %s '' @ arrow @ '' %s'')
                                [decimal written, finalURL, filePath] w3)))))"

text \<open>Lines 412-466: the same body, with \<^verbatim>\<open>defer wg.Done()\<close>.\<close>

definition downloadPDF_buffered_wg :: "env \<Rightarrow> string \<Rightarrow> string \<Rightarrow> world \<Rightarrow> bool \<times> world" where
  "downloadPDF_buffered_wg e finalURL filePath w =
     (let (ok, w') = downloadPDF_buffered e finalURL filePath w in (ok, wg_Done w'))"

subsection \<open>The listing file (src/main.go, lines 20-40 and 198-251)\<close>

text \<open>
  \<^verbatim>\<open>log.Fatalln\<close> writes the log entry and ends the process with \<^verbatim>\<open>os.Exit(1)\<close>. A
  function that can call it yields either \<open>Exit\<close> with the world the process leaves
  behind, or \<open>Return\<close> with its result and the world.
\<close>

datatype 'a run = Exit world | Return 'a world

text \<open>The faults the environment decides for one call of \<^verbatim>\<open>appendAndWriteToFile\<close>.\<close>

record file_faults =
  OpenFile_err :: "string option"
  WriteString_err :: "string option"
  Close_err :: "string option"

definition newline :: string where
  "newline = [CHR 0x0A]"

text \<open>
  \<^verbatim>\<open>appendAndWriteToFile\<close> (lines 198-211). \<^verbatim>\<open>os.OpenFile\<close> with
  \<^verbatim>\<open>O_APPEND|O_CREATE|O_WRONLY\<close> creates the file when it is missing and fails on a
  directory.
\<close>

definition appendAndWriteToFile :: "file_faults \<Rightarrow> string \<Rightarrow> string \<Rightarrow> world \<Rightarrow> unit run" where
  "appendAndWriteToFile ff path content w0 =
     (case (if fs w0 path = Some Dir then Some ''is a directory'' else OpenFile_err ff) of
        Some err \<Rightarrow> Exit (log_Println [err] w0)
      | None \<Rightarrow>
          let old = (case fs w0 path of Some (File c) \<Rightarrow> c | _ \<Rightarrow> []);
              w1 = w0\<lparr>fs := (fs w0)(path \<mapsto> File old)\<rparr>
          in
            (case WriteString_err ff of
               Some err \<Rightarrow> Exit (log_Println [err] w1)
             | None \<Rightarrow>
                 let w2 = w1\<lparr>fs := (fs w1)(path \<mapsto> File (old @ content @ newline))\<rparr> in
                 (case Close_err ff of
                    Some err \<Rightarrow> Exit (log_Println [err] w2)
                  | None \<Rightarrow> Return () w2)))"

text \<open>\<^verbatim>\<open>readAFileAsString\<close> (lines 227-233): \<^verbatim>\<open>os.ReadFile\<close> fails when there is no
  regular file at the path, or when the environment says so.\<close>

definition readAFileAsString :: "string option \<Rightarrow> string \<Rightarrow> world \<Rightarrow> string run" where
  "readAFileAsString ReadFile_err path w =
     (case (case fs w path of
              Some (File c) \<Rightarrow> (case ReadFile_err of Some err \<Rightarrow> Inl err | None \<Rightarrow> Inr c)
            | Some Dir \<Rightarrow> Inl ''is a directory''
            | None \<Rightarrow> Inl ''no such file or directory'') of
        Inl err \<Rightarrow> Exit (log_Println [err] w)
      | Inr content \<Rightarrow> Return content w)"

text \<open>\<^verbatim>\<open>getDataFromURL\<close> (lines 236-251).\<close>

definition getDataFromURL :: "(string \<Rightarrow> string + response) \<Rightarrow> string \<Rightarrow> world \<Rightarrow> string run" where
  "getDataFromURL http_Get uri w0 =
     (let w1 = log_Println [''Scraping'', uri] w0;
          w2 = w1\<lparr>requests := requests w1 @ [uri]\<rparr>
      in
        case http_Get uri of
          Inl err \<Rightarrow> Exit (log_Println [err] w2)
        | Inr response \<Rightarrow>
            (case Body_err response of
               Some err \<Rightarrow> Exit (log_Println [err] w2)
             | None \<Rightarrow>
                 (case Body_Close_err response of
                    Some err \<Rightarrow> Exit (log_Println [err] w2)
                  | None \<Rightarrow> Return (Body response) w2)))"

text \<open>
  \<^verbatim>\<open>getDataFromURL\<close> of src/unnamed/part_000 (lines 305-326): it writes the page to the
  listing file itself; \<^verbatim>\<open>wg.Done\<close> is deferred in its last statement, so it runs only
  when the function got that far.
\<close>

definition getDataFromURL_000 ::
  "(string \<Rightarrow> string + response) \<Rightarrow> file_faults \<Rightarrow> string \<Rightarrow> string \<Rightarrow> world \<Rightarrow> unit run" where
  "getDataFromURL_000 http_Get ff uri localLocationo w0 =
     (case getDataFromURL http_Get uri w0 of
        Exit w' \<Rightarrow> Exit w'
      | Return body w1 \<Rightarrow>
          (case appendAndWriteToFile ff localLocationo body w1 of
             Exit w' \<Rightarrow> Exit w'
           | Return u w2 \<Rightarrow> Return () (wg_Done w2)))"

text \<open>
  \<^verbatim>\<open>main\<close>, lines 20-40: the loop over the pages, then reading the listing file,
  extracting the links and removing duplicates. The environment gives the HTTP answers, the
  file faults of each page, the fault of the final read and the HTML parser. The downloads
  that follow (lines 41-56) run as goroutines and are not part of this function.
\<close>

definition baseURL :: string where
  "baseURL = ''https://www.avient.com/resources/safety-data-sheets?page=''"

definition localLocation :: string where
  "localLocation = ''avient.com.html''"

text \<open>The page numbers of the loop \<^verbatim>\<open>for pageNumber := 0; pageNumber <= 1000; pageNumber++\<close>.\<close>

definition page_numbers :: "nat list" where
  "page_numbers = [0..<1001]"

fun main_pages ::
  "(string \<Rightarrow> string + response) \<Rightarrow> (nat \<Rightarrow> file_faults) \<Rightarrow> nat list \<Rightarrow> world \<Rightarrow> unit run" where
  "main_pages http_Get faults [] w = Return () w"
| "main_pages http_Get faults (pageNumber # rest) w =
     (case getDataFromURL http_Get (baseURL @ decimal pageNumber) w of
        Exit w' \<Rightarrow> Exit w'
      | Return urlData w1 \<Rightarrow>
          (case appendAndWriteToFile (faults pageNumber) localLocation urlData w1 of
             Exit w' \<Rightarrow> Exit w'
           | Return u w2 \<Rightarrow> main_pages http_Get faults rest w2))"

definition main_listing ::
  "(string \<Rightarrow> string + response) \<Rightarrow> (nat \<Rightarrow> file_faults) \<Rightarrow> string option \<Rightarrow> html_parser
     \<Rightarrow> world \<Rightarrow> string list run" where
  "main_listing http_Get faults ReadFile_err NewDocument w0 =
     (case main_pages http_Get faults page_numbers w0 of
        Exit w' \<Rightarrow> Exit w'
      | Return u w1 \<Rightarrow>
          if fileExists w1 localLocation then
            (case readAFileAsString ReadFile_err localLocation w1 of
               Exit w' \<Rightarrow> Exit w'
             | Return localDiskHTMLContent w2 \<Rightarrow>
                 let (links, lg) = parseHTML NewDocument localDiskHTMLContent;
                     fullURLList = removeDuplicatesFromSlice links
                 in Return fullURLList (w2\<lparr>logs := logs w2 @ lg\<rparr>))
          else Return [] w1)"

text \<open>The regular files of a world, with their contents.\<close>

definition files :: "world \<Rightarrow> string \<rightharpoonup> string" where
  "files w = (\<lambda>p. case fs w p of Some (File c) \<Rightarrow> Some c | _ \<Rightarrow> None)"

subsection \<open>Example inputs\<close>

text \<open>
  A listing page with three anchors, as the HTML parser returns it for
  \<^verbatim>\<open><a href=/sds/doc%2Epdf>one</a><a href=/sds/100%.pdf>two</a><a href=/sds/Sheet+1.PDF>three</a>\<close>.
\<close>

definition example_html :: string where
  "example_html =
     ''<a href=/sds/doc%2Epdf>one</a><a href=/sds/100%.pdf>two</a><a href=/sds/Sheet+1.PDF>three</a>''"

definition example_doc :: node where
  "example_doc =
     Element ''html'' []
       [Element ''head'' [] [],
        Element ''body'' []
          [Element ''a'' [(''href'', ''/sds/doc%2Epdf'')] [Text ''one''],
           Element ''a'' [(''href'', ''/sds/100%.pdf'')] [Text ''two''],
           Element ''a'' [(''href'', ''/sds/Sheet+1.PDF'')] [Text ''three'']]]"

definition example_NewDocument :: html_parser where
  "example_NewDocument html = Inr example_doc"

text \<open>
  What \<^verbatim>\<open>url.Parse\<close> returns for \<^verbatim>\<open>https://www.avient.com/sds/A%2542%20c.PDF\<close>: the
  path is percent-decoded once, which leaves \<^verbatim>\<open>/sds/A%42 c.PDF\<close>.
\<close>

definition example_url :: string where
  "example_url = ''https://www.avient.com/sds/A%2542%20c.PDF''"

definition example_url_Parse :: url_parser where
  "example_url_Parse rawURL = Inr \<lparr>Path = ''/sds/A%42 c.PDF''\<rparr>"

text \<open>
  An environment in which every call succeeds and the server answers the example URL with
  status 200 and an HTML page; variants of it with status 404, with an empty PDF and with a
  PDF; a world with nothing on disk, and one where the file for the example URL is there.
  \<^verbatim>\<open>filepath.Join("PDFs/", name)\<close> is \<^verbatim>\<open>PDFs/\<close> followed by the name, for a name
  without slashes or dots-only elements.
\<close>

definition example_response :: response where
  "example_response =
     \<lparr>StatusCode = 200, Status = ''200 OK'', ContentType = ''text/html'', Body = ''<html>'',
      Body_err = None, Body_Close_err = None\<rparr>"

definition example_env :: env where
  "example_env =
     \<lparr>url_Parse = example_url_Parse, Join = (\<lambda>dir name. dir @ name),
      client_Get = (\<lambda>u. Inr example_response),
      MkdirAll_err = None, Create_err = None, Write_err = None\<rparr>"

definition example_env_404 :: env where
  "example_env_404 =
     example_env\<lparr>client_Get :=
       (\<lambda>u. Inr (example_response\<lparr>StatusCode := 404, Status := ''404 Not Found''\<rparr>))\<rparr>"

definition example_env_empty_pdf :: env where
  "example_env_empty_pdf =
     example_env\<lparr>client_Get :=
       (\<lambda>u. Inr (example_response\<lparr>ContentType := ''application/pdf'', Body := []\<rparr>))\<rparr>"

definition example_env_pdf :: env where
  "example_env_pdf =
     example_env\<lparr>client_Get :=
       (\<lambda>u. Inr (example_response\<lparr>ContentType := ''application/pdf'', Body := ''%PDF-1.4''\<rparr>))\<rparr>"

definition example_world :: world where
  "example_world = \<lparr>fs = Map.empty, requests = [], logs = [], wg = 1\<rparr>"

definition example_world_saved :: world where
  "example_world_saved = example_world\<lparr>fs := [''PDFs/ab_c.pdf'' \<mapsto> File ''old'']\<rparr>"

text \<open>File faults for the listing file: writing fails at page 0.\<close>

definition example_faults :: "nat \<Rightarrow> file_faults" where
  "example_faults pageNumber =
     \<lparr>OpenFile_err = None,
      WriteString_err = (if pageNumber = 0 then Some ''no space left on device'' else None),
      Close_err = None\<rparr>"

text \<open>No file faults at any page.\<close>

definition example_no_faults :: "nat \<Rightarrow> file_faults" where
  "example_no_faults pageNumber = \<lparr>OpenFile_err = None, WriteString_err = None, Close_err = None\<rparr>"

text \<open>What \<^verbatim>\<open>url.Parse\<close> returns for \<^verbatim>\<open>:sds\<close>, which has no scheme before its colon.\<close>

definition example_url_Parse_error :: url_parser where
  "example_url_Parse_error rawURL = Inl (ParseError ''missing protocol scheme'')"

text \<open>The formats of the log entries downloadPDF (src/main.go) writes before it returns
  false.\<close>

definition downloadPDF_failure_formats :: "string list" where
  "downloadPDF_failure_formats =
     [''Failed to create directory %s: %v'', ''File already exists, skipping: %s'',
      ''Failed to download %s: %v'', ''Download failed for %s: %s'',
      ''Failed to create file %s %s %v'', ''Failed to save PDF to %s %s %v'']"

section \<open>Properties\<close>

subsection \<open>removeDuplicatesFromSlice\<close>

text \<open>The loop invariant: the map marks exactly the strings already in the result.\<close>

lemma removeDuplicates_range_fresh:
  "(\<And>k. map_index check k = (k \<in> set acc)) \<Longrightarrow>
   removeDuplicates_range check acc xs = acc @ fresh_from (set acc) xs"
proof (induction xs arbitrary: check acc)
  case Nil
  then show ?case by simp
next
  case (Cons x xs)
  show ?case
  proof (cases "x \<in> set acc")
    case True
    then show ?thesis using Cons by simp
  next
    case False
    have inv: "\<And>k. map_index (check(x \<mapsto> True)) k = (k \<in> set (acc @ [x]))"
      using Cons.prems by (simp add: map_index_def)
    have "removeDuplicates_range (check(x \<mapsto> True)) (acc @ [x]) xs
            = (acc @ [x]) @ fresh_from (set (acc @ [x])) xs"
      by (rule Cons.IH [OF inv])
    moreover have "\<not> map_index check x"
      using False Cons.prems by simp
    ultimately show ?thesis using False by simp
  qed
qed

lemma removeDuplicates_fresh: "removeDuplicatesFromSlice xs = fresh_from {} xs"
  using removeDuplicates_range_fresh [of Map.empty "[]" xs]
  by (simp add: removeDuplicatesFromSlice_def map_index_def)

lemma set_fresh_from: "set (fresh_from S xs) = set xs - S"
  by (induction xs arbitrary: S) auto

lemma distinct_fresh_from: "distinct (fresh_from S xs)"
  by (induction xs arbitrary: S) (auto simp: set_fresh_from)

lemma fresh_from_id: "distinct ys \<Longrightarrow> set ys \<inter> S = {} \<Longrightarrow> fresh_from S ys = ys"
  by (induction ys arbitrary: S) auto

lemma fresh_from_positions:
  "fresh_from S xs =
     map (\<lambda>i. xs ! i) (filter (\<lambda>i. xs ! i \<notin> S \<union> set (take i xs)) [0..<length xs])"
proof (induction xs arbitrary: S)
  case Nil
  then show ?case by simp
next
  case (Cons x xs)
  have upt: "[0..<length (x # xs)] = 0 # map Suc [0..<length xs]"
    by (simp add: upt_conv_Cons map_Suc_upt del: upt_Suc)
  show ?case
  proof (cases "x \<in> S")
    case True
    then show ?thesis
      unfolding upt
      apply (simp add: Cons.IH filter_map comp_def)
      apply (rule arg_cong [where f = "map ((!) xs)"])
      apply (rule filter_cong)
       apply auto
      done
  next
    case False
    then show ?thesis
      unfolding upt
      apply (simp add: Cons.IH filter_map comp_def)
      apply (rule arg_cong [where f = "map ((!) xs)"])
      apply (rule filter_cong)
       apply auto
      done
  qed
qed

text \<open>
  Claim C5. For every list of strings, the result of removeDuplicatesFromSlice has no
  string twice, contains every string of the input (and no other), and is the list of the
  input's elements at the positions of their first occurrence, in the order of these
  positions.
\<close>

theorem removeDuplicatesFromSlice_first_occurrences:
  "distinct (removeDuplicatesFromSlice xs)
   \<and> set (removeDuplicatesFromSlice xs) = set xs
   \<and> removeDuplicatesFromSlice xs = first_occurrences xs"
proof -
  have "fresh_from {} xs = first_occurrences xs"
    using fresh_from_positions [of "{}" xs] by (simp add: first_occurrences_def)
  then show ?thesis
    using distinct_fresh_from [of "{}" xs] set_fresh_from [of "{}" xs]
    by (simp add: removeDuplicates_fresh)
qed

text \<open>
  Claim C9. removeDuplicatesFromSlice is idempotent: applied to its own output it returns
  that output unchanged.
\<close>

theorem removeDuplicatesFromSlice_idempotent:
  "removeDuplicatesFromSlice (removeDuplicatesFromSlice xs) = removeDuplicatesFromSlice xs"
proof -
  have "fresh_from {} (fresh_from {} xs) = fresh_from {} xs"
    by (rule fresh_from_id) (simp_all add: distinct_fresh_from)
  then show ?thesis by (simp add: removeDuplicates_fresh)
qed

subsection \<open>sanitizeFileNameFromURL\<close>

lemma ToLower_Nil_iff: "ToLower s = [] \<longleftrightarrow> s = []"
  by (simp add: ToLower_def)

text \<open>After the replacement every byte of the name is one of \<^verbatim>\<open>[A-Za-z0-9_.-]\<close>, an
  ASCII byte.\<close>

lemma re_ReplaceAllString_safe: "c \<in> set (re_ReplaceAllString s) \<Longrightarrow> safe_byte c"
proof (induction s rule: re_ReplaceAllString.induct)
  case (1 s)
  show ?case
  proof (cases "s = []")
    case True
    with "1.prems" show ?thesis
      by (subst (asm) re_ReplaceAllString.simps) simp
  next
    case False
    have u: "safe_byte (CHR ''_'')"
      by (simp add: safe_byte_def)
    from "1.prems" False
    have "c = (if safe_byte (hd s) then hd s else CHR ''_'')
          \<or> c \<in> set (re_ReplaceAllString (drop (rune_width s) s))"
      by (subst (asm) re_ReplaceAllString.simps) simp
    then show ?thesis
      using "1.IH" [OF False] u by (auto split: if_splits)
  qed
qed

lemma safe_byte_ascii: "safe_byte c \<Longrightarrow> byte c < 0x80"
  by (auto simp: safe_byte_def digits_def upper_letters_def lower_letters_def byte_def)

text \<open>
  Claim C10. sanitizeFileNameFromURL never returns the empty string: every branch yields a
  non-empty sanitized name or one of the two non-empty fallback names. So the branch of
  downloadPDF that replaces an empty file name by the base name of the URL is never taken:
  the file name downloadPDF computes is the sanitized name, with \<^verbatim>\<open>.pdf\<close> appended when it
  does not end in it.
\<close>

theorem sanitizeFileNameFromURL_nonempty:
  "fst (sanitizeFileNameFromURL parse rawURL) \<noteq> []
   \<and> downloadPDF_filename parse finalURL =
       (let (filename, lg) = sanitizeFileNameFromURL parse finalURL
        in (if \<not> HasSuffix (ToLower filename) ''.pdf'' then filename @ ''.pdf'' else filename,
            lg))"
proof -
  have ne: "fst (sanitizeFileNameFromURL parse u) \<noteq> []" for u
    by (simp add: sanitizeFileNameFromURL_def Let_def ToLower_Nil_iff
          split: sum.splits prod.splits)
  have "downloadPDF_filename parse finalURL =
       (let (filename, lg) = sanitizeFileNameFromURL parse finalURL
        in (if \<not> HasSuffix (ToLower filename) ''.pdf'' then filename @ ''.pdf'' else filename,
            lg))"
  proof (cases "sanitizeFileNameFromURL parse finalURL")
    case (Pair filename lg)
    with ne [of finalURL] have "filename \<noteq> []" by simp
    with Pair show ?thesis
      by (simp add: downloadPDF_filename_def Let_def)
  qed
  with ne show ?thesis by blast
qed

text \<open>
  Claim C2, as the specification states it, fails: the code decodes the base name with
  \<^verbatim>\<open>url.QueryUnescape\<close> before it replaces characters. For the URL
  \<^verbatim>\<open>https://www.avient.com/sds/A%2542%20c.PDF\<close> the base name of the parsed path is
  \<^verbatim>\<open>A%42 c.PDF\<close>; the code returns \<^verbatim>\<open>ab_c.pdf\<close>, where replacing on the base name
  itself gives \<^verbatim>\<open>a_42_c.pdf\<close>.
\<close>

theorem sanitizeFileNameFromURL_not_plain_basename:
  "fst (sanitizeFileNameFromURL example_url_Parse example_url) = ''ab_c.pdf''
   \<and> claimed_file_name (path_Base ''/sds/A%42 c.PDF'') = ''a_42_c.pdf''"
  by code_simp

text \<open>
  Claim C2, amended. When \<^verbatim>\<open>url.Parse\<close> rejects the URL, the result is the fallback name
  \<^verbatim>\<open>invalid_filename\<close>. When it accepts the URL and the base name of the path decodes
  (\<^verbatim>\<open>url.QueryUnescape\<close>) without error, the result is the DECODED base name with every
  character outside \<^verbatim>\<open>[A-Za-z0-9_.-]\<close> replaced by an underscore, underscores trimmed at
  both ends, in lower case, and the fallback name \<^verbatim>\<open>downloaded_file\<close> when that is empty.
\<close>

theorem sanitizeFileNameFromURL_decoded_basename:
  "(parse rawURL = Inl err \<longrightarrow>
      fst (sanitizeFileNameFromURL parse rawURL) = ''invalid_filename'')
   \<and> (parse rawURL = Inr u \<and> QueryUnescape (path_Base (Path u)) = Inr d \<longrightarrow>
      fst (sanitizeFileNameFromURL parse rawURL) = claimed_file_name d)"
  by (simp add: sanitizeFileNameFromURL_def claimed_file_name_def Let_def ToLower_Nil_iff)

theorem sanitizeFileNameFromURL_decoded_basename_witness:
  "example_url_Parse_error '':sds'' = Inl (ParseError ''missing protocol scheme'')
   \<and> fst (sanitizeFileNameFromURL example_url_Parse_error '':sds'') = ''invalid_filename''
   \<and> example_url_Parse example_url = Inr \<lparr>Path = ''/sds/A%42 c.PDF''\<rparr>
   \<and> QueryUnescape (path_Base (Path \<lparr>Path = ''/sds/A%42 c.PDF''\<rparr>)) = Inr ''AB c.PDF''
   \<and> fst (sanitizeFileNameFromURL example_url_Parse example_url) = claimed_file_name ''AB c.PDF''
   \<and> claimed_file_name ''AB c.PDF'' = ''ab_c.pdf''"
proof -
  have e: "example_url_Parse_error '':sds'' = Inl (ParseError ''missing protocol scheme'')"
    by (simp add: example_url_Parse_error_def)
  have p: "example_url_Parse example_url = Inr \<lparr>Path = ''/sds/A%42 c.PDF''\<rparr>"
    by (simp add: example_url_Parse_def)
  have q: "QueryUnescape (path_Base (Path \<lparr>Path = ''/sds/A%42 c.PDF''\<rparr>)) = Inr ''AB c.PDF''"
    by code_simp
  have c: "claimed_file_name ''AB c.PDF'' = ''ab_c.pdf''"
    by code_simp
  show ?thesis
    using sanitizeFileNameFromURL_decoded_basename
      [of example_url_Parse example_url "ParseError []" "\<lparr>Path = ''/sds/A%42 c.PDF''\<rparr>"
        "''AB c.PDF''"]
      sanitizeFileNameFromURL_decoded_basename
      [of example_url_Parse_error "'':sds''" "ParseError ''missing protocol scheme''"]
      e p q c
    by simp
qed

subsection \<open>parseHTML\<close>

lemma HasSuffix_iff: "HasSuffix s suf \<longleftrightarrow> (\<exists>pre. s = pre @ suf)"
proof
  assume "HasSuffix s suf"
  then have "s = take (length s - length suf) s @ suf"
    by (metis HasSuffix_def append_take_drop_id)
  then show "\<exists>pre. s = pre @ suf" ..
next
  assume "\<exists>pre. s = pre @ suf"
  then show "HasSuffix s suf" by (auto simp: HasSuffix_def)
qed

lemma unescape_write_plain:
  "CHR ''%'' \<notin> set s \<Longrightarrow> CHR ''+'' \<notin> set s \<Longrightarrow> unescape_write s = s"
  by (induction s) auto

text \<open>An escape cannot reach into a tail that starts with a byte that is no hexadecimal
  digit: decoding leaves such a tail, free of \<^verbatim>\<open>%\<close> and \<^verbatim>\<open>+\<close>, as it is.\<close>

lemma unescape_append:
  assumes "\<not> ishex c" and "CHR ''%'' \<notin> set (c # suf)" and "CHR ''+'' \<notin> set (c # suf)"
  shows "unescape_check (pre @ c # suf) = None \<Longrightarrow>
         unescape_write (pre @ c # suf) = unescape_write pre @ c # suf"
proof (induction pre rule: unescape_check.induct)
  case 1
  show ?case using assms unescape_write_plain [of "c # suf"] by simp
next
  case (2 x s)
  show ?case
  proof (cases "x = CHR ''%''")
    case False
    with 2 show ?thesis by simp
  next
    case True
    show ?thesis
    proof (cases s)
      case Nil
      with True 2 assms show ?thesis by (cases suf) auto
    next
      case (Cons h1 s')
      show ?thesis
      proof (cases s')
        case Nil
        with Cons True 2 assms show ?thesis by auto
      next
        case (Cons h2 rest)
        with \<open>s = h1 # s'\<close> True 2 show ?thesis by (auto split: if_splits)
      qed
    qed
  qed
qed

lemma lower_byte_dot: "lower_byte c = CHR ''.'' \<Longrightarrow> \<not> ishex c"
  by (auto simp: ishex_def lower_byte_def upper_letters_def lower_letters_def)

lemma lower_byte_pdf:
  "lower_byte c \<in> set ''.pdf'' \<Longrightarrow> c \<noteq> CHR ''%'' \<and> c \<noteq> CHR ''+''"
  by (auto simp: lower_byte_def upper_letters_def lower_letters_def)

lemma pdf_suffix_decoded:
  assumes dec: "QueryUnescape href = Inr d" and suf: "HasSuffix (ToLower href) ''.pdf''"
  shows "HasSuffix (ToLower d) ''.pdf''"
proof -
  from suf obtain pre where pre: "ToLower href = pre @ ''.pdf''"
    by (auto simp: HasSuffix_iff)
  have len: "length href = length pre + 4"
    using arg_cong [OF pre, of length] by (simp add: ToLower_def)
  define h1 where "h1 = take (length pre) href"
  define h2 where "h2 = drop (length pre) href"
  have href: "href = h1 @ h2" by (simp add: h1_def h2_def)
  have l2: "ToLower h2 = ''.pdf''"
    using pre len by (simp add: h2_def ToLower_def drop_map [symmetric])
  then obtain c1 c2 c3 c4 where h2: "h2 = [c1, c2, c3, c4]"
    and lc: "lower_byte c1 = CHR ''.''" "lower_byte c2 = CHR ''p''"
      "lower_byte c3 = CHR ''d''" "lower_byte c4 = CHR ''f''"
    by (auto simp: ToLower_def map_eq_Cons_conv)
  have nohex: "\<not> ishex c1" using lc(1) by (rule lower_byte_dot)
  have nopct: "CHR ''%'' \<notin> set h2 \<and> CHR ''+'' \<notin> set h2"
    using lc lower_byte_pdf [of c1] lower_byte_pdf [of c2] lower_byte_pdf [of c3]
      lower_byte_pdf [of c4]
    by (auto simp: h2)
  from dec have chk: "unescape_check href = None"
    by (auto simp: QueryUnescape_def split: option.splits)
  from dec chk have d: "d = unescape_write href"
    by (auto simp: QueryUnescape_def unescape_write_plain split: if_splits)
  have "unescape_write (h1 @ c1 # [c2, c3, c4]) = unescape_write h1 @ c1 # [c2, c3, c4]"
    using nohex nopct chk unfolding href h2 by (intro unescape_append) auto
  then have "d = unescape_write h1 @ h2" by (simp add: d href h2)
  then have "ToLower d = ToLower (unescape_write h1) @ ''.pdf''"
    using l2 by (simp add: ToLower_def)
  then show ?thesis by (auto simp: HasSuffix_iff)
qed

lemma Each_parseHTML:
  "(\<And>n. n \<in> set ns \<Longrightarrow> Attr n ''href'' \<noteq> None) \<Longrightarrow>
   fst (Each ns parseHTML_each acc)
     = fst acc @ filter decodes_to_pdf (map (\<lambda>n. the (Attr n ''href'')) ns)"
proof (induction ns arbitrary: acc)
  case Nil
  then show ?case by simp
next
  case (Cons n ns)
  from Cons.prems obtain href where href: "Attr n ''href'' = Some href" by auto
  have step: "fst (parseHTML_each n acc) = fst acc @ (if decodes_to_pdf href then [href] else [])"
    by (simp add: parseHTML_each_def decodes_to_pdf_def href split: sum.splits)
  show ?case
    using Cons.IH [of "parseHTML_each n acc"] Cons.prems
    by (simp add: step href)
qed

lemma Find_a_href_has_href: "n \<in> set (Find_a_href doc) \<Longrightarrow> Attr n ''href'' \<noteq> None"
  by (cases n) (auto simp: Find_a_href_def)

text \<open>
  Claim C1, as the specification states it, fails in both directions: the code tests the
  DECODED target and returns the target as written. In the example page, the target
  \<^verbatim>\<open>/sds/doc%2Epdf\<close> is returned although its lower-case form does not end in
  \<^verbatim>\<open>.pdf\<close>, and the target \<^verbatim>\<open>/sds/100%.pdf\<close>, whose lower-case form ends in
  \<^verbatim>\<open>.pdf\<close>, is left out because it does not decode.
\<close>

theorem parseHTML_not_plain_suffix:
  "fst (parseHTML example_NewDocument example_html) = [''/sds/doc%2Epdf'', ''/sds/Sheet+1.PDF'']
   \<and> \<not> HasSuffix (ToLower ''/sds/doc%2Epdf'') ''.pdf''
   \<and> ''/sds/100%.pdf'' \<in> set (anchor_targets example_doc)
   \<and> HasSuffix (ToLower ''/sds/100%.pdf'') ''.pdf''"
  by code_simp

text \<open>
  Claim C1, amended. For every HTML input, parseHTML returns, in document order and as
  written, exactly the href values of the anchors (\<^verbatim>\<open>a[href]\<close>) whose decoded form
  (\<^verbatim>\<open>url.QueryUnescape\<close>, which must succeed) ends in \<^verbatim>\<open>.pdf\<close> when lowercased; it
  returns nothing when the HTML parser fails. In particular no href that decodes without
  error and whose own lower-case form ends in \<^verbatim>\<open>.pdf\<close> is omitted.
\<close>

theorem parseHTML_decoded_suffix:
  "fst (parseHTML NewDocument htmlContent) =
     (case NewDocument htmlContent of
        Inl err \<Rightarrow> []
      | Inr doc \<Rightarrow> filter decodes_to_pdf (anchor_targets doc))
   \<and> (\<forall>doc href d. NewDocument htmlContent = Inr doc \<and> href \<in> set (anchor_targets doc)
          \<and> QueryUnescape href = Inr d \<and> HasSuffix (ToLower href) ''.pdf''
        \<longrightarrow> href \<in> set (fst (parseHTML NewDocument htmlContent)))"
proof -
  have main: "fst (parseHTML NewDocument htmlContent) =
     (case NewDocument htmlContent of
        Inl err \<Rightarrow> []
      | Inr doc \<Rightarrow> filter decodes_to_pdf (anchor_targets doc))"
    using Each_parseHTML [OF Find_a_href_has_href, of _ _ "([], [])"]
    by (simp add: parseHTML_def anchor_targets_def split: sum.splits)
  have "decodes_to_pdf href"
    if "QueryUnescape href = Inr d" "HasSuffix (ToLower href) ''.pdf''" for href d
    using that pdf_suffix_decoded [of href d] by (simp add: decodes_to_pdf_def)
  with main show ?thesis by auto
qed

theorem parseHTML_decoded_suffix_witness:
  "example_NewDocument example_html = Inr example_doc
   \<and> ''/sds/Sheet+1.PDF'' \<in> set (anchor_targets example_doc)
   \<and> QueryUnescape ''/sds/Sheet+1.PDF'' = Inr ''/sds/Sheet 1.PDF''
   \<and> HasSuffix (ToLower ''/sds/Sheet+1.PDF'') ''.pdf''
   \<and> ''/sds/Sheet+1.PDF'' \<in> set (fst (parseHTML example_NewDocument example_html))
   \<and> fst (parseHTML example_NewDocument example_html)
       = filter decodes_to_pdf (anchor_targets example_doc)"
proof -
  have a: "example_NewDocument example_html = Inr example_doc"
    by (simp add: example_NewDocument_def)
  have b: "''/sds/Sheet+1.PDF'' \<in> set (anchor_targets example_doc)"
    by code_simp
  have c: "QueryUnescape ''/sds/Sheet+1.PDF'' = Inr ''/sds/Sheet 1.PDF''"
    by code_simp
  have d: "HasSuffix (ToLower ''/sds/Sheet+1.PDF'') ''.pdf''"
    by code_simp
  show ?thesis
    using parseHTML_decoded_suffix [of example_NewDocument example_html] a b c d
    by auto
qed

subsection \<open>downloadPDF and the listing file\<close>

lemma files_simps [simp]:
  "files (log_Printf f a w) = files w"
  "files (wg_Done w) = files w"
  "files (w\<lparr>logs := l\<rparr>) = files w"
  "files (w\<lparr>requests := r\<rparr>) = files w"
  by (simp_all add: files_def log_Printf_def wg_Done_def)

lemma fs_simps [simp]:
  "fs (log_Printf f a w) = fs w"
  "fs (wg_Done w) = fs w"
  "requests (log_Printf f a w) = requests w"
  "requests (wg_Done w) = requests w"
  "logs (log_Printf f a w) = logs w @ [Log f a]"
  "logs (wg_Done w) = logs w"
  by (simp_all add: log_Printf_def wg_Done_def)

lemma files_MkdirAll: "os_MkdirAll e d w = Inr w1 \<Longrightarrow> files w1 = files w \<and> requests w1 = requests w \<and> logs w1 = logs w"
  by (auto simp: os_MkdirAll_def files_def fun_eq_iff split: option.splits entry.splits if_splits)

lemma fs_MkdirAll: "os_MkdirAll e d w = Inr w1 \<Longrightarrow> fs w p = Some (File c) \<Longrightarrow> fs w1 p = Some (File c)"
  by (auto simp: os_MkdirAll_def split: option.splits entry.splits)

lemma downloadPDF_body_bad_status:
  assumes "client_Get e u = Inr resp" "StatusCode resp \<noteq> 200"
  shows "fst (downloadPDF_body e u d w) = False \<and> files (snd (downloadPDF_body e u d w)) = files w"
proof (cases "os_MkdirAll e d w")
  case (Inl err)
  then show ?thesis by (simp add: downloadPDF_body_def)
next
  case (Inr w1)
  from files_MkdirAll [OF Inr] have "files w1 = files w" by simp
  with Inr assms show ?thesis
    by (simp add: downloadPDF_body_def Let_def split: prod.splits)
qed

lemma downloadPDF_000_body_rejects:
  assumes "client_Get e u = Inr resp" "StatusCode resp \<noteq> 200 \<or> ContentType resp \<noteq> ''application/pdf''"
  shows "fst (downloadPDF_000_body e u d w) = False \<and> fs (snd (downloadPDF_000_body e u d w)) = fs w"
  using assms by (auto simp: downloadPDF_000_body_def Let_def split: prod.splits)

text \<open>
  Claim C3, as the specification states it, fails for src/main.go, which has no
  content-type check: a response with status 200 and content type \<^verbatim>\<open>text/html\<close> is
  saved, and downloadPDF returns true.
\<close>

theorem downloadPDF_saves_html:
  "client_Get example_env example_url = Inr example_response
   \<and> StatusCode example_response = 200
   \<and> ContentType example_response = ''text/html''
   \<and> fst (downloadPDF example_env example_url ''PDFs/'' example_world) = True
   \<and> files example_world ''PDFs/ab_c.pdf'' = None
   \<and> files (snd (downloadPDF example_env example_url ''PDFs/'' example_world)) ''PDFs/ab_c.pdf''
       = Some ''<html>''"
  by code_simp

text \<open>
  Claim C3, amended. Whenever the response has a status other than 200, downloadPDF
  returns false and creates no file, in src/main.go and in src/unnamed/part_000. In
  part_000, which checks the content type, the same holds whenever the content type is not
  \<^verbatim>\<open>application/pdf\<close>. (src/main.go never reads the content type.)
\<close>

theorem downloadPDF_rejected_response:
  "client_Get e u = Inr resp \<longrightarrow>
     (StatusCode resp \<noteq> 200 \<longrightarrow>
        fst (downloadPDF e u d w) = False \<and> files (snd (downloadPDF e u d w)) = files w)
     \<and> (StatusCode resp \<noteq> 200 \<or> ContentType resp \<noteq> ''application/pdf'' \<longrightarrow>
        fst (downloadPDF_000 e u d w) = False \<and> fs (snd (downloadPDF_000 e u d w)) = fs w)"
  using downloadPDF_body_bad_status [of e u resp d w] downloadPDF_000_body_rejects [of e u resp d w]
  by (auto simp: downloadPDF_def downloadPDF_000_def split: prod.splits)

theorem downloadPDF_rejected_response_witness:
  "client_Get example_env_404 example_url
     = Inr (example_response\<lparr>StatusCode := 404, Status := ''404 Not Found''\<rparr>)
   \<and> StatusCode (example_response\<lparr>StatusCode := 404, Status := ''404 Not Found''\<rparr>) \<noteq> 200
   \<and> fst (downloadPDF example_env_404 example_url ''PDFs/'' example_world) = False
   \<and> files (snd (downloadPDF example_env_404 example_url ''PDFs/'' example_world))
       = files example_world
   \<and> client_Get example_env example_url = Inr example_response
   \<and> ContentType example_response \<noteq> ''application/pdf''
   \<and> fst (downloadPDF_000 example_env example_url ''PDFs/'' example_world) = False
   \<and> fs (snd (downloadPDF_000 example_env example_url ''PDFs/'' example_world))
       = fs example_world"
proof -
  have a: "client_Get example_env_404 example_url
     = Inr (example_response\<lparr>StatusCode := 404, Status := ''404 Not Found''\<rparr>)"
    by (simp add: example_env_404_def)
  have b: "StatusCode (example_response\<lparr>StatusCode := 404, Status := ''404 Not Found''\<rparr>) \<noteq> 200"
    by simp
  have c: "client_Get example_env example_url = Inr example_response"
    by (simp add: example_env_def)
  have d: "ContentType example_response \<noteq> ''application/pdf''"
    by (simp add: example_response_def)
  show ?thesis
    using downloadPDF_rejected_response [of example_env_404 example_url
        "example_response\<lparr>StatusCode := 404, Status := ''404 Not Found''\<rparr>" "''PDFs/''"
        example_world]
      downloadPDF_rejected_response [of example_env example_url example_response "''PDFs/''" example_world]
      a b c d
    by blast
qed

lemma downloadPDF_body_exists:
  assumes "fs w (downloadPDF_filePath e u d) = Some (File c)"
  shows "fst (downloadPDF_body e u d w) = False
     \<and> requests (snd (downloadPDF_body e u d w)) = requests w
     \<and> files (snd (downloadPDF_body e u d w)) = files w"
proof (cases "os_MkdirAll e d w")
  case (Inl err)
  then show ?thesis by (simp add: downloadPDF_body_def)
next
  case (Inr w1)
  from files_MkdirAll [OF Inr] have eq: "files w1 = files w" "requests w1 = requests w" by simp_all
  obtain filename lg where fn: "downloadPDF_filename (url_Parse e) u = (filename, lg)"
    by (cases "downloadPDF_filename (url_Parse e) u")
  from fs_MkdirAll [OF Inr assms] have "fs w1 (Join e d filename) = Some (File c)"
    by (simp add: downloadPDF_filePath_def fn)
  then have "fileExists (w1\<lparr>logs := l\<rparr>) (Join e d filename)" for l
    by (simp add: fileExists_def)
  with Inr eq fn show ?thesis
    by (simp add: downloadPDF_body_def Let_def)
qed

lemma downloadPDF_000_body_exists:
  assumes "fs w (downloadPDF_000_filePath e u d) = Some (File c)"
  shows "fst (downloadPDF_000_body e u d w) = False
     \<and> requests (snd (downloadPDF_000_body e u d w)) = requests w
     \<and> fs (snd (downloadPDF_000_body e u d w)) = fs w"
proof -
  obtain filename lg where fn: "sanitizeFileNameFromURL (url_Parse e) u = (filename, lg)"
    by (cases "sanitizeFileNameFromURL (url_Parse e) u")
  from assms have "fileExists (w\<lparr>logs := l\<rparr>) (Join e d filename)" for l
    by (simp add: fileExists_def downloadPDF_000_filePath_def fn)
  with fn show ?thesis
    by (simp add: downloadPDF_000_body_def Let_def)
qed

text \<open>
  Claim C4. For every URL whose derived file path holds a regular file, downloadPDF (in
  src/main.go and in src/unnamed/part_000) returns false, issues no HTTP request, and leaves
  every file on disk, the existing one included, with its content.
\<close>

theorem downloadPDF_existing_file:
  "(fs w (downloadPDF_filePath e u d) = Some (File c) \<longrightarrow>
      fst (downloadPDF e u d w) = False
      \<and> requests (snd (downloadPDF e u d w)) = requests w
      \<and> files (snd (downloadPDF e u d w)) = files w)
   \<and> (fs w (downloadPDF_000_filePath e u d) = Some (File c) \<longrightarrow>
      fst (downloadPDF_000 e u d w) = False
      \<and> requests (snd (downloadPDF_000 e u d w)) = requests w
      \<and> files (snd (downloadPDF_000 e u d w)) = files w)"
  using downloadPDF_body_exists [of w e u d c] downloadPDF_000_body_exists [of w e u d c]
  by (auto simp: downloadPDF_def downloadPDF_000_def files_def split: prod.splits)


theorem downloadPDF_existing_file_witness:
  "fs example_world_saved (downloadPDF_filePath example_env example_url ''PDFs/'')
     = Some (File ''old'')
   \<and> fst (downloadPDF example_env example_url ''PDFs/'' example_world_saved) = False
   \<and> requests (snd (downloadPDF example_env example_url ''PDFs/'' example_world_saved))
       = requests example_world_saved
   \<and> files (snd (downloadPDF example_env example_url ''PDFs/'' example_world_saved))
       = files example_world_saved
   \<and> fs example_world_saved (downloadPDF_000_filePath example_env example_url ''PDFs/'')
       = Some (File ''old'')
   \<and> fst (downloadPDF_000 example_env example_url ''PDFs/'' example_world_saved) = False
   \<and> requests (snd (downloadPDF_000 example_env example_url ''PDFs/'' example_world_saved))
       = requests example_world_saved
   \<and> files (snd (downloadPDF_000 example_env example_url ''PDFs/'' example_world_saved))
       = files example_world_saved"
proof -
  have a: "fs example_world_saved (downloadPDF_filePath example_env example_url ''PDFs/'')
     = Some (File ''old'')"
    by code_simp
  have b: "fs example_world_saved (downloadPDF_000_filePath example_env example_url ''PDFs/'')
       = Some (File ''old'')"
    by code_simp
  show ?thesis
    using downloadPDF_existing_file [of example_world_saved example_env example_url "''PDFs/''" "''old''"] a b
    by blast
qed

lemma os_Create_requests: "os_Create e p w = Inr w' \<Longrightarrow> requests w' = requests w \<and> logs w' = logs w"
  by (auto simp: os_Create_def split: option.splits entry.splits)

lemma file_Write_requests: "file_Write e p b w = (r, w') \<Longrightarrow> requests w' = requests w \<and> logs w' = logs w"
  by (auto simp: file_Write_def split: option.splits prod.splits if_splits)

lemma io_Copy_requests: "io_Copy_to_file e p resp w = (r, w') \<Longrightarrow> requests w' = requests w \<and> logs w' = logs w"
  by (auto simp: io_Copy_to_file_def split: option.splits prod.splits dest: file_Write_requests)

lemma io_Copy_fails:
  "(\<exists>n err. Write_err e = Some (n, err) \<and> n < length (Body resp)) \<or> Body_err resp \<noteq> None \<Longrightarrow>
   fst (io_Copy_to_file e p resp w) \<noteq> None"
  by (auto simp: io_Copy_to_file_def file_Write_def split: option.splits prod.splits)

lemma downloadPDF_body_requests:
  "requests (snd (downloadPDF_body e u d w)) = requests w
   \<or> requests (snd (downloadPDF_body e u d w)) = requests w @ [u]"
proof (cases "os_MkdirAll e d w")
  case (Inl err)
  then show ?thesis by (simp add: downloadPDF_body_def)
next
  case (Inr w1)
  obtain filename lg where fn: "downloadPDF_filename (url_Parse e) u = (filename, lg)"
    by (cases "downloadPDF_filename (url_Parse e) u")
  from files_MkdirAll [OF Inr] have eq: "requests w1 = requests w" by simp
  show ?thesis
    using Inr fn eq
    by (auto simp: downloadPDF_body_def Let_def
          split: sum.splits prod.splits option.splits
          dest!: os_Create_requests io_Copy_requests)
qed

lemma downloadPDF_body_fails:
  assumes "client_Get e u = Inl err
     \<or> (\<exists>resp. client_Get e u = Inr resp \<and>
          (StatusCode resp \<noteq> 200 \<or> Create_err e \<noteq> None
           \<or> (\<exists>n err. Write_err e = Some (n, err) \<and> n < length (Body resp))
           \<or> Body_err resp \<noteq> None))"
  shows "fst (downloadPDF_body e u d w) = False"
proof (cases "os_MkdirAll e d w")
  case (Inl err)
  then show ?thesis by (simp add: downloadPDF_body_def)
next
  case (Inr w1)
  obtain filename lg where fn: "downloadPDF_filename (url_Parse e) u = (filename, lg)"
    by (cases "downloadPDF_filename (url_Parse e) u")
  from assms show ?thesis
  proof
    assume "client_Get e u = Inl err"
    with Inr fn show ?thesis by (simp add: downloadPDF_body_def Let_def)
  next
    assume "\<exists>resp. client_Get e u = Inr resp \<and>
          (StatusCode resp \<noteq> 200 \<or> Create_err e \<noteq> None
           \<or> (\<exists>n err. Write_err e = Some (n, err) \<and> n < length (Body resp))
           \<or> Body_err resp \<noteq> None)"
    then obtain resp where resp: "client_Get e u = Inr resp"
      and bad: "StatusCode resp \<noteq> 200 \<or> Create_err e \<noteq> None
           \<or> (\<exists>n err. Write_err e = Some (n, err) \<and> n < length (Body resp))
           \<or> Body_err resp \<noteq> None" by blast
    show ?thesis
    proof (cases "StatusCode resp \<noteq> 200")
      case True
      with Inr fn resp show ?thesis by (simp add: downloadPDF_body_def Let_def)
    next
      case ok: False
      show ?thesis
      proof (cases "Create_err e")
        case (Some cerr)
        with Inr fn resp ok show ?thesis by (simp add: downloadPDF_body_def Let_def os_Create_def)
      next
        case None
        with bad ok have "(\<exists>n err. Write_err e = Some (n, err) \<and> n < length (Body resp)) \<or> Body_err resp \<noteq> None"
          by simp
        then have "fst (io_Copy_to_file e p resp w') \<noteq> None" for p w'
          by (rule io_Copy_fails)
        then have "io_Copy_to_file e p resp w' \<noteq> (None, w'')" for p w' w''
          by (metis fst_conv)
        with Inr fn resp ok show ?thesis
          by (auto simp: downloadPDF_body_def Let_def split: sum.splits prod.splits option.splits)
      qed
    qed
  qed
qed

lemma downloadPDF_body_logs:
  "\<exists>lg f args. logs (snd (downloadPDF_body e u d w)) = logs w @ lg @ [Log f args]
     \<and> (if fst (downloadPDF_body e u d w) then f = ''Downloaded %s '' @ arrow @ '' %s''
         else f \<in> set downloadPDF_failure_formats)"
proof (cases "os_MkdirAll e d w")
  case (Inl err)
  then show ?thesis by (simp add: downloadPDF_body_def downloadPDF_failure_formats_def)
next
  case (Inr w1)
  obtain filename lg where fn: "downloadPDF_filename (url_Parse e) u = (filename, lg)"
    by (cases "downloadPDF_filename (url_Parse e) u")
  from files_MkdirAll [OF Inr] have eq: "logs w1 = logs w" by simp
  show ?thesis
    using Inr fn eq
    by (auto simp: downloadPDF_body_def Let_def downloadPDF_failure_formats_def
          split: sum.splits prod.splits option.splits
          dest!: os_Create_requests io_Copy_requests)
qed

lemma downloadPDF_wrap:
  "fst (downloadPDF e u d w) = fst (downloadPDF_body e u d w)"
  "requests (snd (downloadPDF e u d w)) = requests (snd (downloadPDF_body e u d w))"
  "logs (snd (downloadPDF e u d w)) = logs (snd (downloadPDF_body e u d w))"
  "fs (snd (downloadPDF e u d w)) = fs (snd (downloadPDF_body e u d w))"
  "files (snd (downloadPDF e u d w)) = files (snd (downloadPDF_body e u d w))"
  by (simp_all add: downloadPDF_def split: prod.splits)

text \<open>
  Claim C7. One call of downloadPDF (src/main.go) issues at most one HTTP GET: the list of
  requests is unchanged or longer by the one URL. On a network error, a status other than
  200, a failure to create the file, or a failure while writing it (a write error, or an
  error reading the body that is being copied), it returns false. It always ends by writing
  a log entry; when it returns false that entry is one of its failure messages. There is no
  second request, hence no retry.
\<close>

theorem downloadPDF_single_request:
  "(requests (snd (downloadPDF e u d w)) = requests w
      \<or> requests (snd (downloadPDF e u d w)) = requests w @ [u])
   \<and> (client_Get e u = Inl err
        \<or> (\<exists>resp. client_Get e u = Inr resp \<and>
              (StatusCode resp \<noteq> 200 \<or> Create_err e \<noteq> None
               \<or> (\<exists>n err. Write_err e = Some (n, err) \<and> n < length (Body resp))
               \<or> Body_err resp \<noteq> None))
      \<longrightarrow> fst (downloadPDF e u d w) = False)
   \<and> (\<exists>lg f args. logs (snd (downloadPDF e u d w)) = logs w @ lg @ [Log f args]
        \<and> (if fst (downloadPDF e u d w) then f = ''Downloaded %s '' @ arrow @ '' %s''
            else f \<in> set downloadPDF_failure_formats))"
  using downloadPDF_body_requests [of e u d w] downloadPDF_body_fails [of e u err d w]
    downloadPDF_body_logs [of e u d w]
  unfolding downloadPDF_wrap by blast


theorem downloadPDF_single_request_witness:
  "client_Get example_env_404 example_url
     = Inr (example_response\<lparr>StatusCode := 404, Status := ''404 Not Found''\<rparr>)
   \<and> StatusCode (example_response\<lparr>StatusCode := 404, Status := ''404 Not Found''\<rparr>) \<noteq> 200
   \<and> fst (downloadPDF example_env_404 example_url ''PDFs/'' example_world) = False
   \<and> requests (snd (downloadPDF example_env_404 example_url ''PDFs/'' example_world))
       = requests example_world @ [example_url]
   \<and> logs (snd (downloadPDF example_env_404 example_url ''PDFs/'' example_world))
       = logs example_world @ [Log ''Download failed for %s: %s'' [example_url, ''404 Not Found'']]"
proof -
  have a: "client_Get example_env_404 example_url
     = Inr (example_response\<lparr>StatusCode := 404, Status := ''404 Not Found''\<rparr>)"
    by (simp add: example_env_404_def)
  have b: "StatusCode (example_response\<lparr>StatusCode := 404, Status := ''404 Not Found''\<rparr>) \<noteq> 200"
    by simp
  have c: "requests (snd (downloadPDF example_env_404 example_url ''PDFs/'' example_world))
       = requests example_world @ [example_url]"
    by code_simp
  have d: "logs (snd (downloadPDF example_env_404 example_url ''PDFs/'' example_world))
       = logs example_world @ [Log ''Download failed for %s: %s'' [example_url, ''404 Not Found'']]"
    by code_simp
  have "fst (downloadPDF example_env_404 example_url ''PDFs/'' example_world) = False"
    using downloadPDF_single_request [of example_env_404 example_url "''PDFs/''" example_world undefined] a b
    by blast
  with a b c d show ?thesis by blast
qed

lemma fs_Create: "os_Create e p w = Inr w' \<Longrightarrow> fs w' = (fs w)(p \<mapsto> File [])"
  by (auto simp: os_Create_def split: option.splits entry.splits)

lemma fs_Write: "\<exists>k. fs (snd (file_Write e p b w)) = (fs w)(p \<mapsto> File (take k b))"
proof (cases "Write_err e")
  case None
  then have "fs (snd (file_Write e p b w)) = (fs w)(p \<mapsto> File (take (length b) b))"
    by (simp add: file_Write_def)
  then show ?thesis ..
next
  case (Some a)
  obtain n err where a: "a = (n, err)" by (cases a)
  show ?thesis
  proof (cases "n < length b")
    case True
    with Some a have "fs (snd (file_Write e p b w)) = (fs w)(p \<mapsto> File (take n b))"
      by (simp add: file_Write_def)
    then show ?thesis ..
  next
    case False
    with Some a have "fs (snd (file_Write e p b w)) = (fs w)(p \<mapsto> File (take (length b) b))"
      by (simp add: file_Write_def)
    then show ?thesis ..
  qed
qed

lemma buffered_no_file:
  assumes "client_Get e u = Inr resp" "Body_err resp \<noteq> None \<or> Body resp = []"
  shows "fst (downloadPDF_buffered e u p w) = False \<and> fs (snd (downloadPDF_buffered e u p w)) = fs w"
  using assms by (auto simp: downloadPDF_buffered_def Let_def split: option.splits)

lemma buffered_file_written:
  assumes "fs (snd (downloadPDF_buffered e u p w)) \<noteq> fs w"
  shows "\<exists>resp k. client_Get e u = Inr resp \<and> Body_err resp = None \<and> Body resp \<noteq> []
           \<and> fs (snd (downloadPDF_buffered e u p w)) = (fs w)(p \<mapsto> File (take k (Body resp)))"
proof (cases "client_Get e u")
  case (Inl err)
  with assms show ?thesis by (simp add: downloadPDF_buffered_def Let_def)
next
  case (Inr resp)
  show ?thesis
  proof (cases "StatusCode resp = 200 \<and> Contains (ContentType resp) ''application/pdf''
                 \<and> Body_err resp = None \<and> Body resp \<noteq> []")
    case False
    with Inr assms show ?thesis
      by (auto simp: downloadPDF_buffered_def Let_def split: option.splits)
  next
    case True
    let ?w1 = "w\<lparr>requests := requests w @ [u]\<rparr>"
    show ?thesis
    proof (cases "os_Create e p ?w1")
      case (Inl err)
      with Inr True assms show ?thesis by (simp add: downloadPDF_buffered_def Let_def)
    next
      case cr: (Inr w2)
      from fs_Create [OF cr] have w2: "fs w2 = (fs w)(p \<mapsto> File [])" by simp
      obtain k where k: "fs (snd (file_Write e p (Body resp) w2)) = (fs w2)(p \<mapsto> File (take k (Body resp)))"
        using fs_Write by blast
      have "fs (snd (downloadPDF_buffered e u p w)) = fs (snd (file_Write e p (Body resp) w2))"
        using Inr True cr
        by (simp add: downloadPDF_buffered_def Let_def split: prod.splits option.splits)
      with k w2 have "fs (snd (downloadPDF_buffered e u p w)) = (fs w)(p \<mapsto> File (take k (Body resp)))"
        by simp
      with Inr True show ?thesis by blast
    qed
  qed
qed

lemma buffered_wg_wrap:
  "fst (downloadPDF_buffered_wg e u p w) = fst (downloadPDF_buffered e u p w)"
  "fs (snd (downloadPDF_buffered_wg e u p w)) = fs (snd (downloadPDF_buffered e u p w))"
  by (simp_all add: downloadPDF_buffered_wg_def split: prod.splits)

lemma fileExists_fs: "fs w' = fs w \<Longrightarrow> fileExists w' p = fileExists w p"
  by (simp add: fileExists_def)

text \<open>
  Claim C6. In the buffered variant the body is read completely before any file is
  created: when reading the body fails or the body is empty, the function returns false and
  the file system is as before, so a target path that held no file before the call holds
  none after it; and whenever the call changes the file system at all, the body had been
  read to its end without error, was not empty, and the target holds bytes of that body.
\<close>

theorem downloadPDF_buffered_no_partial_file:
  "(client_Get e u = Inr resp \<and> (Body_err resp \<noteq> None \<or> Body resp = []) \<longrightarrow>
      fst (downloadPDF_buffered e u p w) = False
      \<and> fs (snd (downloadPDF_buffered e u p w)) = fs w
      \<and> (\<not> fileExists w p \<longrightarrow> \<not> fileExists (snd (downloadPDF_buffered e u p w)) p)
      \<and> fst (downloadPDF_buffered_wg e u p w) = False
      \<and> fs (snd (downloadPDF_buffered_wg e u p w)) = fs w
      \<and> (\<not> fileExists w p \<longrightarrow> \<not> fileExists (snd (downloadPDF_buffered_wg e u p w)) p))
   \<and> (fs (snd (downloadPDF_buffered e u p w)) \<noteq> fs w \<longrightarrow>
      (\<exists>r k. client_Get e u = Inr r \<and> Body_err r = None \<and> Body r \<noteq> []
           \<and> fs (snd (downloadPDF_buffered e u p w)) = (fs w)(p \<mapsto> File (take k (Body r)))))"
proof -
  have a: "client_Get e u = Inr resp \<and> (Body_err resp \<noteq> None \<or> Body resp = []) \<longrightarrow>
      fst (downloadPDF_buffered e u p w) = False
      \<and> fs (snd (downloadPDF_buffered e u p w)) = fs w"
    using buffered_no_file [of e u resp p w] by blast
  show ?thesis
    using a buffered_file_written [of e u p w]
      fileExists_fs [of "snd (downloadPDF_buffered e u p w)" w p]
      fileExists_fs [of "snd (downloadPDF_buffered_wg e u p w)" w p]
    unfolding buffered_wg_wrap by blast
qed

theorem downloadPDF_buffered_no_partial_file_witness:
  "client_Get example_env_empty_pdf example_url
     = Inr (example_response\<lparr>ContentType := ''application/pdf'', Body := []\<rparr>)
   \<and> Body (example_response\<lparr>ContentType := ''application/pdf'', Body := []\<rparr>) = []
   \<and> \<not> fileExists example_world ''PDFs/ab_c.pdf''
   \<and> fst (downloadPDF_buffered example_env_empty_pdf example_url ''PDFs/ab_c.pdf'' example_world)
       = False
   \<and> fs (snd (downloadPDF_buffered example_env_empty_pdf example_url ''PDFs/ab_c.pdf''
                example_world)) = fs example_world
   \<and> \<not> fileExists (snd (downloadPDF_buffered example_env_empty_pdf example_url
                          ''PDFs/ab_c.pdf'' example_world)) ''PDFs/ab_c.pdf''
   \<and> fs (snd (downloadPDF_buffered example_env_pdf example_url ''PDFs/ab_c.pdf'' example_world))
       \<noteq> fs example_world
   \<and> (\<exists>r k. client_Get example_env_pdf example_url = Inr r \<and> Body_err r = None \<and> Body r \<noteq> []
         \<and> fs (snd (downloadPDF_buffered example_env_pdf example_url ''PDFs/ab_c.pdf''
                      example_world))
             = (fs example_world)(''PDFs/ab_c.pdf'' \<mapsto> File (take k (Body r))))"
proof -
  have a: "client_Get example_env_empty_pdf example_url
     = Inr (example_response\<lparr>ContentType := ''application/pdf'', Body := []\<rparr>)"
    by (simp add: example_env_empty_pdf_def)
  have b: "Body (example_response\<lparr>ContentType := ''application/pdf'', Body := []\<rparr>) = []"
    by simp
  have c: "\<not> fileExists example_world ''PDFs/ab_c.pdf''"
    by (simp add: fileExists_def example_world_def)
  have "fs (snd (downloadPDF_buffered example_env_pdf example_url ''PDFs/ab_c.pdf''
                   example_world)) ''PDFs/ab_c.pdf'' = Some (File ''%PDF-1.4'')"
    by code_simp
  moreover have "fs example_world ''PDFs/ab_c.pdf'' = None"
    by (simp add: example_world_def)
  ultimately have d: "fs (snd (downloadPDF_buffered example_env_pdf example_url
                        ''PDFs/ab_c.pdf'' example_world)) \<noteq> fs example_world"
    by (metis option.distinct(1))
  show ?thesis
    using downloadPDF_buffered_no_partial_file [of example_env_empty_pdf example_url
        "example_response\<lparr>ContentType := ''application/pdf'', Body := []\<rparr>"
        "''PDFs/ab_c.pdf''" example_world]
      downloadPDF_buffered_no_partial_file [of example_env_pdf example_url example_response "''PDFs/ab_c.pdf''" example_world]
      a b c d
    by blast
qed

lemma append_fault_exits:
  "OpenFile_err ff \<noteq> None \<or> WriteString_err ff \<noteq> None \<or> Close_err ff \<noteq> None \<Longrightarrow>
   \<exists>w' err. appendAndWriteToFile ff path content w = Exit w'
      \<and> logs w' = logs w @ [Log [] [err]] \<and> requests w' = requests w"
  by (auto simp: appendAndWriteToFile_def Let_def log_Println_def split: option.splits)

lemma read_fault_exits:
  "ReadFile_err \<noteq> None \<or> \<not> fileExists w path \<Longrightarrow>
   \<exists>w' err. readAFileAsString ReadFile_err path w = Exit w' \<and> logs w' = logs w @ [Log [] [err]]"
  by (auto simp: readAFileAsString_def fileExists_def log_Println_def
        split: option.splits entry.splits)

lemma main_pages_append:
  "main_pages g ff (xs @ ys) w =
     (case main_pages g ff xs w of Exit w' \<Rightarrow> Exit w' | Return u w1 \<Rightarrow> main_pages g ff ys w1)"
proof (induction xs arbitrary: w)
  case Nil
  show ?case by simp
next
  case (Cons x xs)
  show ?case
  proof (cases "getDataFromURL g (baseURL @ decimal x) w")
    case (Exit w')
    then show ?thesis by simp
  next
    case got: (Return urlData w1)
    show ?thesis
    proof (cases "appendAndWriteToFile (ff x) localLocation urlData w1")
      case (Exit w')
      with got show ?thesis by simp
    next
      case (Return u w2)
      with got show ?thesis by (simp add: Cons.IH)
    qed
  qed
qed

lemma pages_split:
  assumes "p \<le> 1000"
  shows "page_numbers = [0..<p] @ p # [Suc p..<1001]"
proof -
  define k where "k = 1000 - p"
  have n: "(1001::nat) = p + Suc k" using assms by (simp add: k_def)
  have "[0..<p + Suc k] = [0..<p] @ [p..<p + Suc k]"
    by (rule upt_add_eq_append) simp
  also have "[p..<p + Suc k] = p # [Suc p..<p + Suc k]"
    by (rule upt_conv_Cons) simp
  finally show ?thesis
    unfolding page_numbers_def n .
qed

lemma main_listing_exits:
  assumes p: "p \<le> 1000"
    and pre: "main_pages g faults [0..<p] w = Return () w1"
    and get: "getDataFromURL g (baseURL @ decimal p) w1 = Return urlData w2"
    and fault: "OpenFile_err (faults p) \<noteq> None \<or> WriteString_err (faults p) \<noteq> None
                 \<or> Close_err (faults p) \<noteq> None"
  shows "\<exists>w'. main_listing g faults rf P w = Exit w' \<and> requests w' = requests w2"
proof -
  from append_fault_exits [OF fault, of localLocation urlData w2]
  obtain w' where ex: "appendAndWriteToFile (faults p) localLocation urlData w2 = Exit w'"
    and rq: "requests w' = requests w2" by blast
  have "main_pages g faults (p # rest) w1 = Exit w'" for rest
    using get ex by simp
  then have "main_pages g faults ([0..<p] @ p # rest) w = Exit w'" for rest
    using pre by (simp add: main_pages_append)
  then have "main_pages g faults page_numbers w = Exit w'"
    by (subst pages_split [OF p]) blast
  then have "main_listing g faults rf P w = Exit w'"
    by (simp add: main_listing_def)
  with rq show ?thesis by blast
qed

lemma main_listing_read_exits:
  assumes "main_pages g faults page_numbers w = Return () w1" "fileExists w1 localLocation" "rf \<noteq> None"
  shows "\<exists>w'. main_listing g faults rf P w = Exit w'"
proof -
  from read_fault_exits [of rf w1 localLocation] assms(3)
  obtain w' where "readAFileAsString rf localLocation w1 = Exit w'" by blast
  with assms show ?thesis by (simp add: main_listing_def)
qed

lemma getDataFromURL_000_exits:
  assumes "getDataFromURL g uri w = Return body w1"
    and "OpenFile_err ff \<noteq> None \<or> WriteString_err ff \<noteq> None \<or> Close_err ff \<noteq> None"
  shows "\<exists>w'. getDataFromURL_000 g ff uri loc w = Exit w'"
proof -
  from append_fault_exits [OF assms(2), of loc body w1]
  obtain w' where "appendAndWriteToFile ff loc body w1 = Exit w'" by blast
  with assms(1) show ?thesis by (simp add: getDataFromURL_000_def)
qed

text \<open>
  Claim C8. A failure to open, write or close the listing file in appendAndWriteToFile,
  or to read it in readAFileAsString, ends the whole process after one log entry
  (\<^verbatim>\<open>log.Fatalln\<close>): the loop over the pages in \<^verbatim>\<open>main\<close> stops at the page where it
  happens, no later page is requested and \<^verbatim>\<open>main\<close> never reaches the downloads; the same
  holds for getDataFromURL of src/unnamed/part_000. downloadPDF, unlike them, returns false
  to its caller when it cannot create its file.
\<close>

theorem fatal_file_errors:
  "(OpenFile_err ff \<noteq> None \<or> WriteString_err ff \<noteq> None \<or> Close_err ff \<noteq> None \<longrightarrow>
      (\<exists>w' err. appendAndWriteToFile ff path content w = Exit w'
          \<and> logs w' = logs w @ [Log [] [err]]))
   \<and> (rf \<noteq> None \<or> \<not> fileExists w path \<longrightarrow>
      (\<exists>w' err. readAFileAsString rf path w = Exit w' \<and> logs w' = logs w @ [Log [] [err]]))
   \<and> (p \<le> 1000 \<and> main_pages g faults [0..<p] w = Return () w1
        \<and> getDataFromURL g (baseURL @ decimal p) w1 = Return urlData w2
        \<and> (OpenFile_err (faults p) \<noteq> None \<or> WriteString_err (faults p) \<noteq> None
            \<or> Close_err (faults p) \<noteq> None) \<longrightarrow>
      (\<exists>w'. main_listing g faults rf P w = Exit w' \<and> requests w' = requests w2))
   \<and> (main_pages g faults page_numbers w = Return () w1 \<and> fileExists w1 localLocation
        \<and> rf \<noteq> None \<longrightarrow>
      (\<exists>w'. main_listing g faults rf P w = Exit w'))
   \<and> (getDataFromURL g uri w = Return urlData w2
        \<and> (OpenFile_err ff \<noteq> None \<or> WriteString_err ff \<noteq> None \<or> Close_err ff \<noteq> None) \<longrightarrow>
      (\<exists>w'. getDataFromURL_000 g ff uri path w = Exit w'))
   \<and> (client_Get e u = Inr resp \<and> Create_err e \<noteq> None \<longrightarrow>
      fst (downloadPDF e u d w) = False)"
proof -
  have a: "OpenFile_err ff \<noteq> None \<or> WriteString_err ff \<noteq> None \<or> Close_err ff \<noteq> None \<longrightarrow>
      (\<exists>w' err. appendAndWriteToFile ff path content w = Exit w'
          \<and> logs w' = logs w @ [Log [] [err]])"
    using append_fault_exits [of ff path content w] by blast
  have b: "rf \<noteq> None \<or> \<not> fileExists w path \<longrightarrow>
      (\<exists>w' err. readAFileAsString rf path w = Exit w' \<and> logs w' = logs w @ [Log [] [err]])"
    using read_fault_exits [of rf w path] by blast
  have c: "p \<le> 1000 \<and> main_pages g faults [0..<p] w = Return () w1
        \<and> getDataFromURL g (baseURL @ decimal p) w1 = Return urlData w2
        \<and> (OpenFile_err (faults p) \<noteq> None \<or> WriteString_err (faults p) \<noteq> None
            \<or> Close_err (faults p) \<noteq> None) \<longrightarrow>
      (\<exists>w'. main_listing g faults rf P w = Exit w' \<and> requests w' = requests w2)"
    using main_listing_exits [of p g faults w w1 urlData w2 rf P] by blast
  have d: "main_pages g faults page_numbers w = Return () w1 \<and> fileExists w1 localLocation
        \<and> rf \<noteq> None \<longrightarrow> (\<exists>w'. main_listing g faults rf P w = Exit w')"
    using main_listing_read_exits [of g faults w w1 rf P] by blast
  have e: "getDataFromURL g uri w = Return urlData w2
        \<and> (OpenFile_err ff \<noteq> None \<or> WriteString_err ff \<noteq> None \<or> Close_err ff \<noteq> None) \<longrightarrow>
      (\<exists>w'. getDataFromURL_000 g ff uri path w = Exit w')"
    using getDataFromURL_000_exits [of g uri w urlData w2 ff path] by blast
  have f: "client_Get e u = Inr resp \<and> Create_err e \<noteq> None \<longrightarrow>
      fst (downloadPDF e u d w) = False"
    using downloadPDF_body_fails [of e u undefined d w] unfolding downloadPDF_wrap by blast
  from a b c d e f show ?thesis by (intro conjI)
qed

lemma getDataFromURL_returns:
  assumes "g uri = Inr resp" "Body_err resp = None" "Body_Close_err resp = None"
  shows "\<exists>w'. getDataFromURL g uri w = Return (Body resp) w' \<and> fs w' = fs w"
  using assms by (simp add: getDataFromURL_def Let_def log_Println_def)

lemma appendAndWriteToFile_returns:
  assumes "OpenFile_err ff = None" "WriteString_err ff = None" "Close_err ff = None"
    and "fs w path \<noteq> Some Dir"
  shows "\<exists>w'. appendAndWriteToFile ff path content w = Return () w' \<and> fileExists w' path"
  using assms by (simp add: appendAndWriteToFile_def Let_def fileExists_def)

lemma main_pages_returns:
  assumes g: "\<And>uri. g uri = Inr resp" "Body_err resp = None" "Body_Close_err resp = None"
    and ff: "\<And>n. OpenFile_err (faults n) = None \<and> WriteString_err (faults n) = None
                 \<and> Close_err (faults n) = None"
  shows "fs w localLocation \<noteq> Some Dir \<Longrightarrow>
         \<exists>w'. main_pages g faults pages w = Return () w'
              \<and> fs w' localLocation \<noteq> Some Dir
              \<and> (pages \<noteq> [] \<longrightarrow> fileExists w' localLocation)"
proof (induction pages arbitrary: w)
  case Nil
  then show ?case by simp
next
  case (Cons n pages)
  have "g (baseURL @ decimal n) = Inr resp" by (rule g(1))
  from getDataFromURL_returns
    [where g = g and uri = "baseURL @ decimal n" and resp = resp and w = w, OF this g(2) g(3)]
  obtain w1 where w1: "getDataFromURL g (baseURL @ decimal n) w = Return (Body resp) w1"
    and fs1: "fs w1 = fs w" by blast
  from Cons.prems fs1 have "fs w1 localLocation \<noteq> Some Dir" by simp
  then have "\<exists>w'. appendAndWriteToFile (faults n) localLocation (Body resp) w1 = Return () w'
               \<and> fileExists w' localLocation"
    using ff [of n] by (intro appendAndWriteToFile_returns) simp_all
  then obtain w2 where w2: "appendAndWriteToFile (faults n) localLocation (Body resp) w1 = Return () w2"
    and ex2: "fileExists w2 localLocation" by (elim exE conjE)
  from ex2 have nd: "fs w2 localLocation \<noteq> Some Dir"
    by (auto simp: fileExists_def)
  from Cons.IH [OF nd] obtain w' where
    r: "main_pages g faults pages w2 = Return () w'" and d: "fs w' localLocation \<noteq> Some Dir"
    and e: "pages \<noteq> [] \<longrightarrow> fileExists w' localLocation" by (elim exE conjE)
  have "main_pages g faults (n # pages) w = Return () w'"
    using w1 w2 r by simp
  moreover have "fileExists w' localLocation"
  proof (cases "pages = []")
    case True
    with r ex2 show ?thesis by simp
  next
    case False
    with e show ?thesis by simp
  qed
  ultimately show ?case using d by (intro exI [of _ w']) simp
qed

lemma page_numbers_nonempty: "page_numbers \<noteq> []"
proof -
  have "page_numbers = [0..<0] @ 0 # [Suc 0..<1001]"
    by (rule pages_split) simp
  then show ?thesis by (metis append_is_Nil_conv list.distinct(1))
qed

theorem fatal_file_errors_witness:
  "WriteString_err (example_faults 0) \<noteq> None
   \<and> (\<exists>w' err. appendAndWriteToFile (example_faults 0) localLocation ''<html>'' example_world
          = Exit w' \<and> logs w' = logs example_world @ [Log [] [err]])
   \<and> \<not> fileExists example_world localLocation
   \<and> (\<exists>w' err. readAFileAsString None localLocation example_world = Exit w'
          \<and> logs w' = logs example_world @ [Log [] [err]])
   \<and> (0::nat) \<le> 1000
   \<and> main_pages (client_Get example_env) example_faults [0..<0] example_world
       = Return () example_world
   \<and> getDataFromURL (client_Get example_env) (baseURL @ decimal 0) example_world
       = Return ''<html>''
           ((log_Println [''Scraping'', baseURL @ decimal 0] example_world)
              \<lparr>requests := [baseURL @ decimal 0]\<rparr>)
   \<and> (\<exists>w'. main_listing (client_Get example_env) example_faults None example_NewDocument
           example_world = Exit w'
         \<and> requests w' = [baseURL @ decimal 0])
   \<and> (\<exists>w1. main_pages (client_Get example_env) example_no_faults page_numbers example_world
           = Return () w1 \<and> fileExists w1 localLocation)
   \<and> (\<exists>w'. main_listing (client_Get example_env) example_no_faults (Some ''input/output error'')
           example_NewDocument example_world = Exit w')
   \<and> (\<exists>w'. getDataFromURL_000 (client_Get example_env) (example_faults 0) (baseURL @ decimal 0)
           localLocation example_world = Exit w')
   \<and> client_Get (example_env\<lparr>Create_err := Some ''permission denied''\<rparr>) example_url
       = Inr example_response
   \<and> Create_err (example_env\<lparr>Create_err := Some ''permission denied''\<rparr>) \<noteq> None
   \<and> fst (downloadPDF (example_env\<lparr>Create_err := Some ''permission denied''\<rparr>) example_url
            ''PDFs/'' example_world) = False"
proof -
  let ?w2 = "(log_Println [''Scraping'', baseURL @ decimal 0] example_world)
              \<lparr>requests := [baseURL @ decimal 0]\<rparr>"
  let ?e = "example_env\<lparr>Create_err := Some ''permission denied''\<rparr>"
  have a: "WriteString_err (example_faults 0) \<noteq> None"
    by (simp add: example_faults_def)
  have b: "\<not> fileExists example_world localLocation"
    by (simp add: fileExists_def example_world_def)
  have c: "main_pages (client_Get example_env) example_faults [0..<0] example_world
       = Return () example_world"
    by simp
  have d: "getDataFromURL (client_Get example_env) (baseURL @ decimal 0) example_world
       = Return ''<html>'' ?w2"
    by (simp add: getDataFromURL_def Let_def example_env_def example_response_def
          example_world_def log_Println_def)
  have e: "client_Get ?e example_url = Inr example_response"
    by (simp add: example_env_def)
  have f: "Create_err ?e \<noteq> None"
    by simp
  have r: "requests ?w2 = [baseURL @ decimal 0]"
    by simp
  have "\<exists>w1. main_pages (client_Get example_env) example_no_faults page_numbers example_world
           = Return () w1 \<and> fs w1 localLocation \<noteq> Some Dir
         \<and> (page_numbers \<noteq> [] \<longrightarrow> fileExists w1 localLocation)"
    by (rule main_pages_returns [where resp = example_response])
      (simp_all add: example_env_def example_response_def example_no_faults_def
        example_world_def)
  then obtain w1 where
    g: "main_pages (client_Get example_env) example_no_faults page_numbers example_world
           = Return () w1"
    and h: "fileExists w1 localLocation"
    using page_numbers_nonempty by (elim exE conjE) simp
  have i: "Some ''input/output error'' \<noteq> (None :: string option)"
    by simp
  note inst = fatal_file_errors [where ff = "example_faults 0" and path = localLocation
        and content = "''<html>''" and w = example_world and rf = None and p = 0
        and g = "client_Get example_env" and faults = example_faults and ?w1.0 = example_world
        and urlData = "''<html>''" and ?w2.0 = ?w2 and P = example_NewDocument
        and uri = "baseURL @ decimal 0" and e = ?e and u = example_url
        and resp = example_response and d = "''PDFs/''"]
  note inst2 = fatal_file_errors [where w = example_world
        and rf = "Some ''input/output error''"
        and g = "client_Get example_env" and faults = example_no_faults and ?w1.0 = w1
        and P = example_NewDocument]
  have j: "\<exists>w'. main_listing (client_Get example_env) example_no_faults
              (Some ''input/output error'') example_NewDocument example_world = Exit w'"
    using inst2 g h i by (simp only: simp_thms)
  have k: "\<exists>w1. main_pages (client_Get example_env) example_no_faults page_numbers example_world
           = Return () w1 \<and> fileExists w1 localLocation"
    using g h by (intro exI [of _ w1]) simp
  show ?thesis
    using inst a b c d e f r j k by (simp only: simp_thms)
qed

end
